theory Spec2Isabelle
  imports Complex_Main "HOL-Library.Sublist" "HOL-Library.AList"
begin

section \<open>Eagle: tools, configuration and the interactive session\<close>

text \<open>
  A shallow embedding of the Python sources of Eagle: \<^verbatim>\<open>cli.py\<close> (tool
  initialisation, the interactive session), \<^verbatim>\<open>config.py\<close> (\<^verbatim>\<open>load_config\<close>),
  the web tool and the call\_agent tool. Python \<^verbatim>\<open>str\<close> is \<^typ>\<open>string\<close>,
  \<^verbatim>\<open>bytes\<close> is a list of bytes, Python's unbounded \<^verbatim>\<open>int\<close> is \<^typ>\<open>int\<close>.
  Every library call that can raise is a function of an environment record that returns
  a sum: \<open>Inl\<close> the exception, \<open>Inr\<close> the value. The tool registry, the permission
  gate and the interpreter loop are not among the sources; where a property is about
  them they are modelled from the specification, and each such definition says so.
\<close>

subsection \<open>Strings and exceptions\<close>

type_synonym bytes = "char list"

definition nl :: string where
  "nl = [CHR 0x0A]"

definition sq :: string where
  "sq = [CHR 0x27]"

text \<open>\<^verbatim>\<open>s.startswith(p)\<close>\<close>

definition startswith :: "string \<Rightarrow> string \<Rightarrow> bool" where
  "startswith s p = (take (length p) s = p)"

text \<open>\<^verbatim>\<open>str(n)\<close> for an integer: decimal digits, a minus sign when negative.\<close>

definition digit_char :: "nat \<Rightarrow> char" where
  "digit_char d = char_of (48 + d)"

fun str_nat :: "nat \<Rightarrow> string" where
  "str_nat n = (if n < 10 then [digit_char n] else str_nat (n div 10) @ [digit_char (n mod 10)])"

definition str_int :: "int \<Rightarrow> string" where
  "str_int i = (if i < 0 then ''-'' @ str_nat (nat (- i)) else str_nat (nat i))"

text \<open>
  The exceptions below \<^verbatim>\<open>Exception\<close> that the sources name in an \<^verbatim>\<open>except\<close>
  clause or raise themselves, and one constructor for every other subclass of
  \<^verbatim>\<open>Exception\<close>. Asynchronous interrupts (\<^verbatim>\<open>KeyboardInterrupt\<close>, which is not
  an \<^verbatim>\<open>Exception\<close>) are outside the model.
\<close>

datatype exn =
    HTTPError int string
  | URLError string
  | TimeoutError string
  | TimeoutExpired string
  | FileNotFoundError string
  | JSONDecodeError string
  | UnicodeDecodeError string
  | TypeError string
  | KeyError string
  | ValueError string
  | AttributeError string
  | OtherException string

text \<open>\<^verbatim>\<open>str(e)\<close>\<close>

fun str_exn :: "exn \<Rightarrow> string" where
  "str_exn (HTTPError code reason) = ''HTTP Error '' @ str_int code @ '': '' @ reason"
| "str_exn (URLError reason) = ''<urlopen error '' @ reason @ ''>''"
| "str_exn (TimeoutError m) = m"
| "str_exn (TimeoutExpired m) = m"
| "str_exn (FileNotFoundError m) = m"
| "str_exn (JSONDecodeError m) = m"
| "str_exn (UnicodeDecodeError m) = m"
| "str_exn (TypeError m) = m"
| "str_exn (KeyError m) = m"
| "str_exn (ValueError m) = m"
| "str_exn (AttributeError m) = m"
| "str_exn (OtherException m) = m"

subsection \<open>The interactive session (cli.py, start\_interactive\_mode)\<close>

text \<open>
  \<^verbatim>\<open>session_history\<close> is a list of messages \<^verbatim>\<open>{"role": ..., "content": ...}\<close>.
  The interpreter is not part of these sources: \<^verbatim>\<open>_get_llm_response\<close> is a
  parameter that, given the instruction and the history, returns the response or raises;
  it is taken not to mutate the list it is passed.
\<close>

record message =
  role :: string
  content :: string

type_synonym llm = "string \<Rightarrow> message list \<Rightarrow> exn + string"

text \<open>Lines 166-168: \<^verbatim>\<open>if len(h) > 50: h = h[-50:]\<close>.\<close>

definition limit_history :: "message list \<Rightarrow> message list" where
  "limit_history h = (if length h > 50 then drop (length h - 50) h else h)"

text \<open>
  Lines 155-171, one instruction: the user turn is appended, the model is asked, and
  only when it answers are the assistant turn appended and the history limited. When the
  call raises, the handler of line 170 prints the error and the rest of the block is
  skipped.
\<close>

definition execute_instruction :: "llm \<Rightarrow> message list \<Rightarrow> string \<Rightarrow> message list" where
  "execute_instruction get_llm_response session_history user_input =
     (let h1 = session_history @ [\<lparr>role = ''user'', content = user_input\<rparr>] in
      case get_llm_response user_input h1 of
        Inl e \<Rightarrow> h1
      | Inr response \<Rightarrow> limit_history (h1 @ [\<lparr>role = ''assistant'', content = response\<rparr>]))"

text \<open>
  Lines 67-180, the loop over the (stripped) input lines. An empty line and the display
  commands leave the history as it is (they are taken to succeed), \<^verbatim>\<open>.forget\<close>
  clears it, \<^verbatim>\<open>.exit\<close> and \<^verbatim>\<open>.quit\<close> end the session; the end of the input
  is \<^verbatim>\<open>EOFError\<close>, which ends it too.
\<close>

fun interactive_loop :: "llm \<Rightarrow> message list \<Rightarrow> string list \<Rightarrow> message list" where
  "interactive_loop get_llm_response h [] = h"
| "interactive_loop get_llm_response h (user_input # rest) =
     (if user_input = [] then interactive_loop get_llm_response h rest
      else if user_input = ''.exit'' \<or> user_input = ''.quit'' then h
      else if user_input = ''.help'' then interactive_loop get_llm_response h rest
      else if user_input = ''.config'' then interactive_loop get_llm_response h rest
      else if user_input = ''.capabilities'' then interactive_loop get_llm_response h rest
      else if user_input = ''.memory'' then interactive_loop get_llm_response h rest
      else if user_input = ''.forget'' then interactive_loop get_llm_response [] rest
      else if user_input = ''.save-session'' then interactive_loop get_llm_response h rest
      else interactive_loop get_llm_response
             (execute_instruction get_llm_response h user_input) rest)"

definition start_interactive_mode :: "llm \<Rightarrow> string list \<Rightarrow> message list" where
  "start_interactive_mode get_llm_response inputs = interactive_loop get_llm_response [] inputs"

text \<open>A provider that is unreachable: every call raises.\<close>

definition unreachable_llm :: llm where
  "unreachable_llm user_input h = Inl (OtherException ''connection refused'')"

text \<open>A provider that answers every instruction with \<^verbatim>\<open>ok\<close>.\<close>

definition echo_llm :: llm where
  "echo_llm user_input h = Inr ''ok''"

subsection \<open>Configuration (config.py)\<close>

text \<open>
  What \<^verbatim>\<open>json.load\<close> returns: a dict is an association list with distinct keys,
  read with \<^const>\<open>map_of\<close> and written with \<^const>\<open>AList.update\<close>.
\<close>

datatype json =
    JNull
  | JBool bool
  | JInt int
  | JFloat real
  | JStr string
  | JList "json list"
  | JDict "(string \<times> json) list"

text \<open>Truthiness, as \<^verbatim>\<open>if v:\<close> tests it.\<close>

fun truthy :: "json \<Rightarrow> bool" where
  "truthy JNull = False"
| "truthy (JBool b) = b"
| "truthy (JInt i) = (i \<noteq> 0)"
| "truthy (JFloat r) = (r \<noteq> 0)"
| "truthy (JStr s) = (s \<noteq> [])"
| "truthy (JList xs) = (xs \<noteq> [])"
| "truthy (JDict kvs) = (kvs \<noteq> [])"

text \<open>\<^verbatim>\<open>v[key]\<close> for a \<^verbatim>\<open>str\<close> key: only a dict can be subscripted by one.\<close>

fun getitem :: "json \<Rightarrow> string \<Rightarrow> exn + json" where
  "getitem (JDict kvs) key =
     (case map_of kvs key of None \<Rightarrow> Inl (KeyError key) | Some v \<Rightarrow> Inr v)"
| "getitem v key = Inl (TypeError ''indices must be integers, or the object is not subscriptable'')"

text \<open>\<^verbatim>\<open>v[0]\<close>\<close>

fun getitem0 :: "json \<Rightarrow> exn + json" where
  "getitem0 (JList xs) = (case xs of [] \<Rightarrow> Inl (OtherException ''list index out of range'') | x # _ \<Rightarrow> Inr x)"
| "getitem0 (JStr s) = (case s of [] \<Rightarrow> Inl (OtherException ''string index out of range'') | c # _ \<Rightarrow> Inr (JStr [c]))"
| "getitem0 (JDict kvs) = Inl (KeyError ''0'')"
| "getitem0 v = Inl (TypeError ''object is not subscriptable'')"

text \<open>What \<^verbatim>\<open>for agent in v\<close> iterates over: a dict gives its keys, a str its characters.\<close>

fun iterate :: "json \<Rightarrow> exn + json list" where
  "iterate (JList xs) = Inr xs"
| "iterate (JDict kvs) = Inr (map (\<lambda>kv. JStr (fst kv)) kvs)"
| "iterate (JStr s) = Inr (map (\<lambda>c. JStr [c]) s)"
| "iterate v = Inl (TypeError ''object is not iterable'')"

text \<open>\<^verbatim>\<open>c = v.copy(); c["verbose"] = verbose; return c\<close>\<close>

fun copy_with_verbose :: "json \<Rightarrow> json \<Rightarrow> exn + json" where
  "copy_with_verbose (JDict kvs) verbose = Inr (JDict (AList.update ''verbose'' verbose kvs))"
| "copy_with_verbose (JList xs) verbose = Inl (TypeError ''list indices must be integers or slices, not str'')"
| "copy_with_verbose v verbose = Inl (AttributeError ''object has no attribute copy'')"

text \<open>\<^verbatim>\<open>config.get("verbose", True)\<close>, for a config that is a dict.\<close>

definition get_verbose :: "json \<Rightarrow> json" where
  "get_verbose config =
     (case config of
        JDict kvs \<Rightarrow> (case map_of kvs ''verbose'' of None \<Rightarrow> JBool True | Some v \<Rightarrow> v)
      | _ \<Rightarrow> JBool True)"

text \<open>
  The configuration files: for the project's and the user's file, \<open>None\<close> when
  \<^verbatim>\<open>os.path.exists\<close> is false, else what opening and parsing it gives; the packaged
  default file is opened without a test.
\<close>

record config_files =
  project_config :: "(exn + json) option"
  user_config :: "(exn + json) option"
  default_config :: "exn + json"

definition get_default_config :: "config_files \<Rightarrow> exn + json" where
  "get_default_config fs = default_config fs"

text \<open>Lines 30-41: project first, then user, then the default.\<close>

definition read_config :: "config_files \<Rightarrow> exn + json" where
  "read_config fs =
     (case project_config fs of
        Some r \<Rightarrow> r
      | None \<Rightarrow> (case user_config fs of Some r \<Rightarrow> r | None \<Rightarrow> get_default_config fs))"

text \<open>
  Lines 46-51, the search: \<open>Inr (Some agent)\<close> at the first agent whose name is equal
  to \<open>agent_name\<close>, \<open>Inr None\<close> when the loop ends, \<open>Inl\<close> when \<^verbatim>\<open>agent["name"]\<close>
  raises before that.
\<close>

fun find_agent :: "json list \<Rightarrow> string \<Rightarrow> exn + json option" where
  "find_agent [] agent_name = Inr None"
| "find_agent (agent # rest) agent_name =
     (case getitem agent ''name'' of
        Inl e \<Rightarrow> Inl e
      | Inr v \<Rightarrow> if v = JStr agent_name then Inr (Some agent) else find_agent rest agent_name)"

text \<open>
  Lines 43-60. \<^verbatim>\<open>if agent_name:\<close> is false for \<^verbatim>\<open>None\<close> and for the empty string.
\<close>

definition select_named :: "json \<Rightarrow> string \<Rightarrow> exn + json" where
  "select_named config agent_name =
     (case getitem config ''agents'' of
        Inl e \<Rightarrow> Inl e
      | Inr agents \<Rightarrow>
         (case iterate agents of
            Inl e \<Rightarrow> Inl e
          | Inr xs \<Rightarrow>
             (case find_agent xs agent_name of
                Inl e \<Rightarrow> Inl e
              | Inr (Some agent) \<Rightarrow> copy_with_verbose agent (get_verbose config)
              | Inr None \<Rightarrow>
                  Inl (ValueError (''Agent '' @ sq @ agent_name @ sq
                                   @ '' not found in configuration'')))))"

definition select_first :: "json \<Rightarrow> exn + json" where
  "select_first config =
     (case getitem config ''agents'' of
        Inl e \<Rightarrow> Inl e
      | Inr agents \<Rightarrow>
         if truthy agents then
           (case getitem0 agents of
              Inl e \<Rightarrow> Inl e
            | Inr agent \<Rightarrow> copy_with_verbose agent (get_verbose config))
         else Inl (ValueError ''No agents defined in configuration''))"

definition select_agent :: "json \<Rightarrow> string option \<Rightarrow> exn + json" where
  "select_agent config agent_name =
     (case agent_name of
        None \<Rightarrow> select_first config
      | Some [] \<Rightarrow> select_first config
      | Some (c # cs) \<Rightarrow> select_named config (c # cs))"

definition load_config :: "config_files \<Rightarrow> string option \<Rightarrow> exn + json" where
  "load_config fs agent_name =
     (case read_config fs of Inl e \<Rightarrow> Inl e | Inr config \<Rightarrow> select_agent config agent_name)"

text \<open>
  A configuration as the claims presuppose it: a dict whose \<^verbatim>\<open>agents\<close> entry is a
  list of dicts that each have a \<^verbatim>\<open>name\<close>.
\<close>

fun is_agent :: "json \<Rightarrow> bool" where
  "is_agent (JDict kvs) = (map_of kvs ''name'' \<noteq> None)"
| "is_agent v = False"

definition agent_named :: "string \<Rightarrow> json \<Rightarrow> bool" where
  "agent_named n agent = (getitem agent ''name'' = Inr (JStr n))"

text \<open>A project configuration with one agent, named \<^verbatim>\<open>coder\<close>.\<close>

definition coder_agent :: json where
  "coder_agent = JDict [(''name'', JStr ''coder''), (''provider'', JStr ''openai'')]"

definition one_agent_files :: config_files where
  "one_agent_files =
     \<lparr>project_config = Some (Inr (JDict [(''verbose'', JBool False), (''agents'', JList [coder_agent])])),
      user_config = None,
      default_config = Inl (FileNotFoundError ''eagle_config.json'')\<rparr>"

definition is_ValueError :: "exn + json \<Rightarrow> bool" where
  "is_ValueError r = (case r of Inl (ValueError m) \<Rightarrow> True | _ \<Rightarrow> False)"

subsection \<open>The web tool (default-config/tools/web)\<close>

text \<open>
  The library calls of the tool, as an environment. \<^verbatim>\<open>urlparse(url)\<close> gives the
  scheme and the \<^verbatim>\<open>hostname\<close> property (which can raise, or be \<^verbatim>\<open>None\<close>);
  \<^verbatim>\<open>Request(url, data, method)\<close> accepts its arguments or raises;
  \<^verbatim>\<open>urlopen\<close> gives a response or raises; the decoders return \<open>None\<close> for
  \<^verbatim>\<open>UnicodeDecodeError\<close>.
\<close>

record parsed_url =
  scheme :: string
  hostname :: "exn + string option"

record request =
  req_url :: string
  req_data :: "bytes option"
  req_method :: string
  req_headers :: "(string \<times> string) list"

record response =
  status :: int
  reason :: string
  final_url :: string
  content_length_header :: "string option"
  content_type_header :: "string option"
  read :: "exn + bytes"

record web_env =
  urlparse :: "string \<Rightarrow> exn + parsed_url"
  encode_utf8 :: "string \<Rightarrow> exn + bytes"
  json_loads :: "string \<Rightarrow> exn + unit"
  request_init :: "string \<Rightarrow> bytes option \<Rightarrow> string \<Rightarrow> exn + unit"
  urlopen :: "request \<Rightarrow> int \<Rightarrow> exn + response"
  int_of_str :: "string \<Rightarrow> exn + int"
  decode_utf8 :: "bytes \<Rightarrow> string option"
  decode_latin1 :: "bytes \<Rightarrow> string option"

text \<open>\<^verbatim>\<open>s.lower()\<close>, on ASCII letters.\<close>

definition lower_char :: "char \<Rightarrow> char" where
  "lower_char c = (let n = (of_char c :: nat) in if 65 \<le> n \<and> n \<le> 90 then char_of (n + 32) else c)"

definition lower :: "string \<Rightarrow> string" where
  "lower s = map lower_char s"

text \<open>\<^verbatim>\<open>xs[:i]\<close>: a negative \<open>i\<close> counts from the end.\<close>

definition slice_to :: "'a list \<Rightarrow> int \<Rightarrow> 'a list" where
  "slice_to xs i = (if 0 \<le> i then take (nat i) xs else take (length xs - nat (- i)) xs)"

definition blocked_hosts :: "string list" where
  "blocked_hosts = [''localhost'', ''127.0.0.1'', ''0.0.0.0'', ''::1'']"

text \<open>Lines 179-197. Any exception inside gives \<^verbatim>\<open>False\<close>.\<close>

definition is_safe_url :: "web_env \<Rightarrow> string \<Rightarrow> bool" where
  "is_safe_url env url =
     (case urlparse env url of
        Inl e \<Rightarrow> False
      | Inr parsed \<Rightarrow>
          if scheme parsed \<notin> set [''http'', ''https''] then False
          else (case hostname parsed of
                  Inl e \<Rightarrow> False
                | Inr None \<Rightarrow> True
                | Inr (Some h) \<Rightarrow>
                    if h \<noteq> [] \<and> lower h \<in> set blocked_hosts then False else True))"

text \<open>Lines 88-93: the text returned before anything is sent, if any.\<close>

definition validate_url :: "web_env \<Rightarrow> string \<Rightarrow> string option" where
  "validate_url env url =
     (if \<not> (startswith url ''http://'' \<or> startswith url ''https://'') then
        Some (''Invalid URL: '' @ url @ ''. Must start with http:// or https://'')
      else if \<not> is_safe_url env url then
        Some (''Access denied: URL blocked for security: '' @ url)
      else None)"

text \<open>Lines 99-106.\<close>

definition prepare_data :: "web_env \<Rightarrow> string option \<Rightarrow> string \<Rightarrow> exn + bytes option" where
  "prepare_data env data method =
     (case data of
        None \<Rightarrow> Inr None
      | Some d \<Rightarrow>
          if d \<noteq> [] \<and> method \<in> set [''POST'', ''PUT''] then
            (case encode_utf8 env d of Inl e \<Rightarrow> Inl e | Inr b \<Rightarrow> Inr (Some b))
          else Inr None)"

text \<open>\<^verbatim>\<open>not headers or key not in headers\<close>\<close>

definition header_missing :: "(string \<times> string) list option \<Rightarrow> string \<Rightarrow> bool" where
  "header_missing headers key =
     (case headers of None \<Rightarrow> True | Some hs \<Rightarrow> hs = [] \<or> key \<notin> fst ` set hs)"

text \<open>
  Lines 120-128: the Content-Type added for a body. Only \<^verbatim>\<open>JSONDecodeError\<close> and
  \<^verbatim>\<open>TypeError\<close> of \<^verbatim>\<open>json.loads\<close> are caught here.
\<close>

definition content_type_for :: "web_env \<Rightarrow> string \<Rightarrow> exn + string" where
  "content_type_for env data =
     (case json_loads env data of
        Inr u \<Rightarrow> Inr ''application/json''
      | Inl (JSONDecodeError m) \<Rightarrow> Inr ''application/x-www-form-urlencoded''
      | Inl (TypeError m) \<Rightarrow> Inr ''application/x-www-form-urlencoded''
      | Inl e \<Rightarrow> Inl e)"

text \<open>Lines 99-128: the request, with the headers in the order \<^verbatim>\<open>add_header\<close> is called.\<close>

definition build_request ::
  "web_env \<Rightarrow> string \<Rightarrow> string \<Rightarrow> (string \<times> string) list option \<Rightarrow> string option \<Rightarrow> exn + request" where
  "build_request env url method headers data =
     (case prepare_data env data method of
        Inl e \<Rightarrow> Inl e
      | Inr data_bytes \<Rightarrow>
         (case request_init env url data_bytes method of
            Inl e \<Rightarrow> Inl e
          | Inr u \<Rightarrow>
              let h1 = (case headers of None \<Rightarrow> [] | Some hs \<Rightarrow> hs);
                  h2 = (if header_missing headers ''User-Agent''
                        then h1 @ [(''User-Agent'', ''Eagle-WebTool/1.0'')] else h1)
              in if data_bytes \<noteq> None \<and> data_bytes \<noteq> Some [] \<and> method \<in> set [''POST'', ''PUT'']
                    \<and> header_missing headers ''Content-Type''
                 then (case content_type_for env (case data of Some d \<Rightarrow> d | None \<Rightarrow> []) of
                         Inl e \<Rightarrow> Inl e
                       | Inr ct \<Rightarrow>
                           Inr \<lparr>req_url = url, req_data = data_bytes, req_method = method,
                                req_headers = h2 @ [(''Content-Type'', ct)]\<rparr>)
                 else Inr \<lparr>req_url = url, req_data = data_bytes, req_method = method,
                           req_headers = h2\<rparr>))"

text \<open>
  Lines 133-134: \<^verbatim>\<open>content_length and int(content_length) > max_content_length\<close>.
\<close>

definition content_too_large :: "web_env \<Rightarrow> response \<Rightarrow> int \<Rightarrow> exn + bool" where
  "content_too_large env response max_content_length =
     (case content_length_header response of
        None \<Rightarrow> Inr False
      | Some cl \<Rightarrow>
          if cl = [] then Inr False
          else (case int_of_str env cl of
                  Inl e \<Rightarrow> Inl e
                | Inr n \<Rightarrow> Inr (n > max_content_length)))"

text \<open>Lines 141-145.\<close>

definition limit_content :: "bytes \<Rightarrow> int \<Rightarrow> bytes \<times> bool" where
  "limit_content content_bytes max_content_length =
     (if int (length content_bytes) > max_content_length
      then (slice_to content_bytes max_content_length, True)
      else (content_bytes, False))"

text \<open>Lines 148-154: \<open>None\<close> when both decoders fail.\<close>

definition decode_text :: "web_env \<Rightarrow> bytes \<Rightarrow> string option" where
  "decode_text env content_bytes =
     (case decode_utf8 env content_bytes of
        Some t \<Rightarrow> Some t
      | None \<Rightarrow> decode_latin1 env content_bytes)"

text \<open>Lines 147-168.\<close>

definition render_result :: "web_env \<Rightarrow> response \<Rightarrow> bytes \<Rightarrow> bool \<Rightarrow> int \<Rightarrow> string" where
  "render_result env response content_bytes truncated max_content_length =
     (case decode_text env content_bytes of
        None \<Rightarrow> ''Binary content received ('' @ str_int (int (length content_bytes))
                 @ '' bytes). Cannot display as text.''
      | Some text_content \<Rightarrow>
          ''HTTP '' @ str_int (status response) @ '' '' @ reason response @ nl
          @ ''URL: '' @ final_url response @ nl
          @ ''Content-Type: ''
          @ (case content_type_header response of None \<Rightarrow> ''unknown'' | Some ct \<Rightarrow> ct) @ nl
          @ ''Content-Length: '' @ str_int (int (length content_bytes)) @ '' bytes'' @ nl
          @ (if truncated
             then ''(Content truncated to '' @ str_int max_content_length @ '' bytes)'' @ nl
             else [])
          @ nl @ replicate 50 (CHR ''='') @ nl
          @ text_content)"

text \<open>Lines 131-168, with the response in hand.\<close>

definition read_response :: "web_env \<Rightarrow> response \<Rightarrow> int \<Rightarrow> exn + string" where
  "read_response env response max_content_length =
     (case content_too_large env response max_content_length of
        Inl e \<Rightarrow> Inl e
      | Inr True \<Rightarrow>
          Inr (''Content too large: ''
               @ (case content_length_header response of Some cl \<Rightarrow> cl | None \<Rightarrow> [])
               @ '' bytes (max: '' @ str_int max_content_length @ '')'')
      | Inr False \<Rightarrow>
          (case read response of
             Inl e \<Rightarrow> Inl e
           | Inr content_bytes \<Rightarrow>
               (case limit_content content_bytes max_content_length of
                  (limited, truncated) \<Rightarrow>
                    Inr (render_result env response limited truncated max_content_length))))"

text \<open>
  Lines 87-168, the body of the \<^verbatim>\<open>try\<close>: what it returns or raises, and the requests
  it has passed to \<^verbatim>\<open>urlopen\<close>.
\<close>

definition request_body ::
  "web_env \<Rightarrow> string \<Rightarrow> string \<Rightarrow> (string \<times> string) list option \<Rightarrow> string option
     \<Rightarrow> int \<Rightarrow> int \<Rightarrow> (exn + string) \<times> request list" where
  "request_body env url method headers data timeout max_content_length =
     (case validate_url env url of
        Some refusal \<Rightarrow> (Inr refusal, [])
      | None \<Rightarrow>
          let limit = min max_content_length (10 * 1024 * 1024) in
          (case build_request env url method headers data of
             Inl e \<Rightarrow> (Inl e, [])
           | Inr req \<Rightarrow>
               (case urlopen env req timeout of
                  Inl e \<Rightarrow> (Inl e, [req])
                | Inr response \<Rightarrow> (read_response env response limit, [req]))))"

text \<open>
  Lines 170-177, the \<^verbatim>\<open>except\<close> clauses in their order: \<^verbatim>\<open>HTTPError\<close>,
  \<^verbatim>\<open>URLError\<close>, \<^verbatim>\<open>TimeoutError\<close>, then every other \<^verbatim>\<open>Exception\<close>.
\<close>

fun request_failed :: "exn \<Rightarrow> string \<Rightarrow> int \<Rightarrow> string" where
  "request_failed (HTTPError code why) url timeout =
     ''HTTP Error '' @ str_int code @ '': '' @ why @ nl @ ''URL: '' @ url"
| "request_failed (URLError why) url timeout =
     ''URL Error: '' @ why @ nl @ ''URL: '' @ url"
| "request_failed (TimeoutError m) url timeout =
     ''Request timed out after '' @ str_int timeout @ '' seconds'' @ nl @ ''URL: '' @ url"
| "request_failed e url timeout =
     ''Error making request: '' @ str_exn e @ nl @ ''URL: '' @ url"

definition make_request ::
  "web_env \<Rightarrow> string \<Rightarrow> string \<Rightarrow> (string \<times> string) list option \<Rightarrow> string option
     \<Rightarrow> int \<Rightarrow> int \<Rightarrow> (exn + string) \<times> request list" where
  "make_request env url method headers data timeout max_content_length =
     (case request_body env url method headers data timeout max_content_length of
        (Inr text, sent) \<Rightarrow> (Inr text, sent)
      | (Inl e, sent) \<Rightarrow> (Inr (request_failed e url timeout), sent))"

text \<open>
  Lines 78-81. The result is what \<^verbatim>\<open>execute\<close> returns (or raises), paired with the
  requests that were passed to \<^verbatim>\<open>urlopen\<close> on the way.
\<close>

definition WebTool_execute ::
  "web_env \<Rightarrow> string \<Rightarrow> string \<Rightarrow> (string \<times> string) list option \<Rightarrow> string option
     \<Rightarrow> int \<Rightarrow> int \<Rightarrow> (exn + string) \<times> request list" where
  "WebTool_execute env url method headers data timeout max_content_length =
     make_request env url method headers data timeout max_content_length"

text \<open>
  A stand-in for \<^verbatim>\<open>urllib.parse.urlparse\<close> on plain URLs, used to evaluate the
  tool at concrete inputs: the scheme is what precedes the first colon, the host what
  stands between \<^verbatim>\<open>://\<close> and the next of \<^verbatim>\<open>/ : ? #\<close>, both in lower case.
\<close>

definition example_urlparse :: "string \<Rightarrow> exn + parsed_url" where
  "example_urlparse url =
     (let sch = takeWhile (\<lambda>c. c \<noteq> CHR '':'') url;
          rest = dropWhile (\<lambda>c. c \<noteq> CHR '':'') url;
          host = (if startswith rest ''://''
                  then takeWhile (\<lambda>c. c \<notin> set ''/:?#'') (drop 3 rest) else [])
      in Inr \<lparr>scheme = lower sch,
               hostname = Inr (if host = [] then None else Some (lower host))\<rparr>)"

text \<open>
  A server that answers every request with \<^verbatim>\<open>200 OK\<close> and the given body, without
  a Content-Length header; the body is ASCII text.
\<close>

definition example_response :: "bytes \<Rightarrow> response" where
  "example_response body =
     \<lparr>status = 200, reason = ''OK'', final_url = ''http://example.com/'',
      content_length_header = None, content_type_header = None, read = Inr body\<rparr>"

definition example_env :: "bytes \<Rightarrow> web_env" where
  "example_env body =
     \<lparr>urlparse = example_urlparse,
      encode_utf8 = (\<lambda>s. Inr s),
      json_loads = (\<lambda>s. Inl (JSONDecodeError ''Expecting value'')),
      request_init = (\<lambda>u d m. Inr ()),
      urlopen = (\<lambda>req timeout. Inr (example_response body)),
      int_of_str = (\<lambda>s. Inl (ValueError ''invalid literal for int()'')),
      decode_utf8 = (\<lambda>b. Some b),
      decode_latin1 = (\<lambda>b. Some b)\<rparr>"

subsection \<open>The call\_agent tool (default\_config/tools/call\_agent)\<close>

text \<open>
  The library calls of the tool: \<^verbatim>\<open>NamedTemporaryFile\<close> (by suffix, giving the
  file's name), writing to it, \<^verbatim>\<open>subprocess.run\<close> on a command line, and
  \<^verbatim>\<open>os.unlink\<close>.
\<close>

record completed_process =
  returncode :: int
  stdout :: string
  stderr :: string

record agent_env =
  named_temporary_file :: "string \<Rightarrow> exn + string"
  write_file :: "string \<Rightarrow> string \<Rightarrow> exn + unit"
  subprocess_run :: "string list \<Rightarrow> exn + completed_process"
  unlink :: "string \<Rightarrow> exn + unit"

text \<open>\<^verbatim>\<open>if v: cmd.extend([flag, v])\<close>\<close>

definition option_args :: "string \<Rightarrow> string option \<Rightarrow> string list" where
  "option_args flag v = (case v of None \<Rightarrow> [] | Some s \<Rightarrow> if s = [] then [] else [flag, s])"

text \<open>Lines 66-76.\<close>

definition build_command ::
  "string \<Rightarrow> string option \<Rightarrow> string option \<Rightarrow> string option \<Rightarrow> string option \<Rightarrow> string list" where
  "build_command temp_caw_path agent provider model rules =
     [''eagle'', ''run'', temp_caw_path]
     @ option_args ''--agent'' agent
     @ option_args ''--provider'' provider
     @ option_args ''--model'' model
     @ option_args ''--rules'' rules"

text \<open>\<^verbatim>\<open>agent if agent else "default agent"\<close>\<close>

definition agent_label :: "string option \<Rightarrow> string" where
  "agent_label agent =
     (case agent of None \<Rightarrow> ''default agent'' | Some a \<Rightarrow> if a = [] then ''default agent'' else a)"

text \<open>Lines 99-114, with the completed process in hand.\<close>

definition report_result :: "agent_env \<Rightarrow> completed_process \<Rightarrow> string option \<Rightarrow> bool \<Rightarrow> exn + string" where
  "report_result env result agent save_output =
     (if returncode result = 0 then
        let response_text = ''Agent call to '' @ agent_label agent @ '' completed successfully:''
                            @ nl @ nl @ stdout result
        in if save_output then
             (case named_temporary_file env ''.txt'' of
                Inl e \<Rightarrow> Inl e
              | Inr output_name \<Rightarrow>
                  (case write_file env output_name (stdout result) of
                     Inl e \<Rightarrow> Inl e
                   | Inr u \<Rightarrow> Inr (response_text @ nl @ nl @ ''Output saved to: '' @ output_name)))
           else Inr response_text
      else
        Inr (''Agent call to '' @ agent_label agent @ '' failed (exit code ''
             @ str_int (returncode result) @ ''):'' @ nl @ nl
             @ ''Stdout:'' @ nl @ stdout result @ nl @ nl
             @ ''Stderr:'' @ nl @ stderr result))"

text \<open>
  Lines 79-119, the inner \<^verbatim>\<open>try\<close> with its two \<^verbatim>\<open>except\<close> clauses. After the
  child process the temporary file is unlinked; whatever \<^verbatim>\<open>os.unlink\<close> raises is
  dropped (lines 94-97).
\<close>

definition run_agent ::
  "agent_env \<Rightarrow> string \<Rightarrow> string list \<Rightarrow> string option \<Rightarrow> bool \<Rightarrow> exn + string" where
  "run_agent env temp_caw_path cmd agent save_output =
     (case (case subprocess_run env cmd of
              Inl e \<Rightarrow> Inl e
            | Inr result \<Rightarrow>
                (case unlink env temp_caw_path of
                   Inl e \<Rightarrow> report_result env result agent save_output
                 | Inr u \<Rightarrow> report_result env result agent save_output)) of
        Inl (TimeoutExpired m) \<Rightarrow> Inr ''Agent call timed out after 5 minutes''
      | Inl (FileNotFoundError m) \<Rightarrow>
          Inr ''Error: 'eagle' command not found. Make sure Eagle is installed and in your PATH.''
      | r \<Rightarrow> r)"

text \<open>Lines 59-114, the body of the outer \<^verbatim>\<open>try\<close>.\<close>

definition agent_body ::
  "agent_env \<Rightarrow> string \<Rightarrow> string option \<Rightarrow> string option \<Rightarrow> string option \<Rightarrow> string option
     \<Rightarrow> bool \<Rightarrow> exn + string" where
  "agent_body env instructions agent provider model rules save_output =
     (case named_temporary_file env ''.caw'' of
        Inl e \<Rightarrow> Inl e
      | Inr temp_caw_path \<Rightarrow>
          (case write_file env temp_caw_path instructions of
             Inl e \<Rightarrow> Inl e
           | Inr u \<Rightarrow>
               run_agent env temp_caw_path
                 (build_command temp_caw_path agent provider model rules) agent save_output))"

text \<open>
  Lines 56-129: the outer handler turns every exception into text (it first tries to
  unlink the temporary file, and drops what that raises).
\<close>

definition CallAgentTool_execute ::
  "agent_env \<Rightarrow> string \<Rightarrow> string option \<Rightarrow> string option \<Rightarrow> string option \<Rightarrow> string option
     \<Rightarrow> bool \<Rightarrow> exn + string" where
  "CallAgentTool_execute env instructions agent provider model rules save_output =
     (case agent_body env instructions agent provider model rules save_output of
        Inl e \<Rightarrow> Inr (''Error executing agent call: '' @ str_exn e)
      | Inr text \<Rightarrow> Inr text)"

text \<open>The plugin contract of a call of \<^verbatim>\<open>execute\<close>: it returns text.\<close>

definition returns_text :: "exn + string \<Rightarrow> bool" where
  "returns_text r = (case r of Inl e \<Rightarrow> False | Inr text \<Rightarrow> True)"

text \<open>
  Two child processes: one that prints \<^verbatim>\<open>done\<close> and exits with 0, one that does not
  end within the 300 seconds \<^verbatim>\<open>subprocess.run\<close> is given.
\<close>

definition finishing_env :: agent_env where
  "finishing_env =
     \<lparr>named_temporary_file = (\<lambda>suffix. Inr (''/tmp/tmp1'' @ suffix)),
      write_file = (\<lambda>path text. Inr ()),
      subprocess_run = (\<lambda>cmd. Inr \<lparr>returncode = 0, stdout = ''done'', stderr = []\<rparr>),
      unlink = (\<lambda>path. Inr ())\<rparr>"

definition hanging_env :: agent_env where
  "hanging_env =
     \<lparr>named_temporary_file = (\<lambda>suffix. Inr (''/tmp/tmp1'' @ suffix)),
      write_file = (\<lambda>path text. Inr ()),
      subprocess_run = (\<lambda>cmd. Inl (TimeoutExpired ''timed out after 300 seconds'')),
      unlink = (\<lambda>path. Inr ())\<rparr>"

text \<open>A network on which every connection is refused.\<close>

definition refusing_env :: web_env where
  "refusing_env =
     \<lparr>urlparse = example_urlparse,
      encode_utf8 = (\<lambda>s. Inr s),
      json_loads = (\<lambda>s. Inl (JSONDecodeError ''Expecting value'')),
      request_init = (\<lambda>u d m. Inr ()),
      urlopen = (\<lambda>req timeout. Inl (URLError ''Connection refused'')),
      int_of_str = (\<lambda>s. Inl (ValueError ''invalid literal for int()'')),
      decode_utf8 = (\<lambda>b. Some b),
      decode_latin1 = (\<lambda>b. Some b)\<rparr>"

text \<open>A machine whose temporary directory is full.\<close>

definition failing_env :: agent_env where
  "failing_env =
     \<lparr>named_temporary_file = (\<lambda>suffix. Inl (OtherException ''No space left on device'')),
      write_file = (\<lambda>path text. Inr ()),
      subprocess_run = (\<lambda>cmd. Inr \<lparr>returncode = 0, stdout = ''done'', stderr = []\<rparr>),
      unlink = (\<lambda>path. Inr ())\<rparr>"

subsection \<open>The tool registry (cli.py, \_initialize\_tools)\<close>

record tool_descriptor =
  tool_name :: string
  tool_description :: string

type_synonym tool_registry = "string \<rightharpoonup> tool_descriptor"

text \<open>
  Modelled from the spec: the registry and its \<^verbatim>\<open>load_tools_from_directory\<close> live
  in \<^verbatim>\<open>tools/base.py\<close>, which is not among the sources. The spec has the registry
  as a mapping from tool name to descriptor, a descriptor's name as its key, and a later
  loaded tool of the same name replacing the earlier one. \<open>scan path\<close> is the
  list of descriptors that the entries of the directory resolve to, in the order of the
  scan (an entry that fails to load is skipped; a directory that does not exist has none).
\<close>

definition register_tool :: "tool_registry \<Rightarrow> tool_descriptor \<Rightarrow> tool_registry" where
  "register_tool reg t = reg(tool_name t \<mapsto> t)"

text \<open>
  Modelled from the spec: \<^verbatim>\<open>load_tools_from_directory(path)\<close> of the registry, which
  is not among the sources: every descriptor of the scan is registered, in the order of
  the scan, over what the registry holds.
\<close>

definition load_tools_from_directory ::
  "(string \<Rightarrow> tool_descriptor list) \<Rightarrow> tool_registry \<Rightarrow> string \<Rightarrow> tool_registry" where
  "load_tools_from_directory scan reg path = foldl register_tool reg (scan path)"

text \<open>\<^verbatim>\<open>os.path.join\<close> of a path and a relative name.\<close>

definition path_join :: "string \<Rightarrow> string \<Rightarrow> string" where
  "path_join a b = (if a = [] then b else if last a = CHR ''/'' then a @ b else a @ ''/'' @ b)"

text \<open>
  What the process sees of its surroundings: the directory of the module
  (\<^verbatim>\<open>os.path.dirname(__file__)\<close>), \<^verbatim>\<open>os.getcwd()\<close> and \<^verbatim>\<open>os.path.expanduser\<close>.
\<close>

record os_env =
  module_dir :: string
  getcwd :: string
  expanduser :: "string \<Rightarrow> string"

definition default_tools_dir :: "os_env \<Rightarrow> string" where
  "default_tools_dir env = path_join (path_join (module_dir env) ''default_config'') ''tools''"

definition project_tools_dir :: "os_env \<Rightarrow> string" where
  "project_tools_dir env = path_join (path_join (getcwd env) ''.eagle'') ''tools''"

definition user_tools_dir :: "os_env \<Rightarrow> string" where
  "user_tools_dir env = expanduser env ''~/.eagle/tools''"

text \<open>Lines 18-32 of cli.py: the built-in tools, then the project's, then the user's.\<close>

definition initialize_tools ::
  "(string \<Rightarrow> tool_descriptor list) \<Rightarrow> os_env \<Rightarrow> tool_registry \<Rightarrow> tool_registry" where
  "initialize_tools scan env reg =
     (let reg1 = load_tools_from_directory scan reg (default_tools_dir env);
          reg2 = load_tools_from_directory scan reg1 (project_tools_dir env)
      in load_tools_from_directory scan reg2 (user_tools_dir env))"

text \<open>The definition a directory gives a name: the last one of that name in the scan.\<close>

definition defined_in :: "tool_descriptor list \<Rightarrow> string \<Rightarrow> tool_descriptor option" where
  "defined_in ds x = find (\<lambda>d. tool_name d = x) (rev ds)"

text \<open>Every descriptor is registered under its own name.\<close>

definition registry_ok :: "tool_registry \<Rightarrow> bool" where
  "registry_ok reg = (\<forall>k d. reg k = Some d \<longrightarrow> tool_name d = k)"

text \<open>
  A machine with a built-in \<^verbatim>\<open>web\<close> and \<^verbatim>\<open>shell\<close> tool, a project that brings its
  own \<^verbatim>\<open>web\<close> tool, and a user directory with none.
\<close>

definition example_os :: os_env where
  "example_os = \<lparr>module_dir = ''/pkg/eagle_lang'', getcwd = ''/work'',
                 expanduser = (\<lambda>p. ''/home/u'' @ drop 1 p)\<rparr>"

definition example_scan :: "string \<Rightarrow> tool_descriptor list" where
  "example_scan path =
     (if path = ''/pkg/eagle_lang/default_config/tools'' then
        [\<lparr>tool_name = ''web'', tool_description = ''built-in web''\<rparr>,
         \<lparr>tool_name = ''shell'', tool_description = ''built-in shell''\<rparr>]
      else if path = ''/work/.eagle/tools'' then
        [\<lparr>tool_name = ''web'', tool_description = ''project web''\<rparr>]
      else [])"

subsection \<open>The permission gate\<close>

text \<open>
  Modelled from the spec: the permission gate is part of the interpreter, which is not
  among the sources. The spec has a configured set of tools that require permission, a
  per-session set of tools the user has approved with "always allow", and
  \<^verbatim>\<open>requires_confirmation\<close> true for a tool in the first set and not in the second.
\<close>

record permission_gate =
  require_permission :: "string set"
  granted :: "string set"

text \<open>Modelled from the spec: the gate of a new session, with no grant.\<close>

definition new_gate :: "string set \<Rightarrow> permission_gate" where
  "new_gate required = \<lparr>require_permission = required, granted = {}\<rparr>"

text \<open>
  Modelled from the spec: \<^verbatim>\<open>requires_confirmation(tool_name)\<close> of the gate, which is
  not among the sources.
\<close>

definition requires_confirmation :: "permission_gate \<Rightarrow> string \<Rightarrow> bool" where
  "requires_confirmation g tool = (tool \<in> require_permission g \<and> tool \<notin> granted g)"

datatype answer = AlwaysAllow | AllowOnce | Deny

datatype decision = Permitted | Refused

text \<open>
  Modelled from the spec: \<^verbatim>\<open>request_and_record\<close> asks the injected prompt; an
  approval records a session-scoped grant ("always allow") or is a one-shot allow, a
  denial is a refusal.
\<close>

definition request_and_record ::
  "permission_gate \<Rightarrow> string \<Rightarrow> (string \<Rightarrow> answer) \<Rightarrow> decision \<times> permission_gate" where
  "request_and_record g tool prompt_fn =
     (case prompt_fn tool of
        AlwaysAllow \<Rightarrow> (Permitted, g\<lparr>granted := insert tool (granted g)\<rparr>)
      | AllowOnce \<Rightarrow> (Permitted, g)
      | Deny \<Rightarrow> (Refused, g))"

text \<open>
  Modelled from the spec: the gate as the loop consults it before an execution; the user
  is asked only when \<^verbatim>\<open>requires_confirmation\<close> is true.
\<close>

definition consult_gate ::
  "permission_gate \<Rightarrow> (string \<Rightarrow> answer) \<Rightarrow> string \<Rightarrow> decision \<times> permission_gate" where
  "consult_gate g prompt_fn tool =
     (if requires_confirmation g tool then request_and_record g tool prompt_fn
      else (Permitted, g))"

text \<open>
  Modelled from the spec: the gate after the loop has consulted it for a sequence of
  tools, one after the other.
\<close>

fun consult_all :: "permission_gate \<Rightarrow> (string \<Rightarrow> answer) \<Rightarrow> string list \<Rightarrow> permission_gate" where
  "consult_all g prompt_fn [] = g"
| "consult_all g prompt_fn (tool # tools) =
     consult_all (snd (consult_gate g prompt_fn tool)) prompt_fn tools"

subsection \<open>The interpreter loop\<close>

text \<open>
  Modelled from the spec: the interpreter loop (\<^verbatim>\<open>interpreter.py\<close>) and the provider
  adapters are not among the sources. The spec's loop asks the provider once per
  iteration; a final answer is appended as an assistant turn and ends the run; tool
  requests are handled in their order (unknown tool, invalid arguments, refused
  permission and a failed execution each become the text of a tool-result turn) and the
  loop goes on; a configured ceiling on the iterations ends the run with
  \<^verbatim>\<open>LoopLimitExceeded\<close> and the transcript. A provider error ends the run (the
  optional retries of the spec are left out).
\<close>

datatype turn_tag = UserTurn | AssistantTurn | ToolResultTurn

record turn =
  tag :: turn_tag
  turn_text :: string
  answers_call :: "string option"

record tool_invocation_request =
  requested_tool :: string
  arguments :: "(string \<times> string) list"
  call_identifier :: string

datatype provider_response =
    FinalAnswer string
  | ToolRequests "tool_invocation_request list"
  | ProviderError bool

record executable_tool =
  accepts :: "(string \<times> string) list \<Rightarrow> bool"
  execute_tool :: "(string \<times> string) list \<Rightarrow> exn + string"

record loop_config =
  ask_provider :: "turn list \<Rightarrow> provider_response"
  loop_tools :: "string \<rightharpoonup> executable_tool"
  confirm :: "string \<Rightarrow> answer"
  iteration_ceiling :: nat

record loop_state =
  conversation :: "turn list"
  gate :: permission_gate
  iterations :: nat

datatype outcome = Done string | LoopLimitExceeded "turn list" | ProviderFailed bool

definition tool_result :: "tool_invocation_request \<Rightarrow> string \<Rightarrow> turn" where
  "tool_result req t = \<lparr>tag = ToolResultTurn, turn_text = t, answers_call = Some (call_identifier req)\<rparr>"

definition append_turn :: "loop_state \<Rightarrow> turn \<Rightarrow> loop_state" where
  "append_turn st t = st\<lparr>conversation := conversation st @ [t]\<rparr>"

text \<open>
  Modelled from the spec: step 4 of the loop's iteration (not among the sources), for one
  request.
\<close>

definition execute_request :: "loop_config \<Rightarrow> loop_state \<Rightarrow> tool_invocation_request \<Rightarrow> loop_state" where
  "execute_request cfg st req =
     (case loop_tools cfg (requested_tool req) of
        None \<Rightarrow> append_turn st (tool_result req (''Tool not found: '' @ requested_tool req))
      | Some t \<Rightarrow>
          if \<not> accepts t (arguments req) then
            append_turn st (tool_result req (''Invalid arguments for tool: '' @ requested_tool req))
          else
            (case consult_gate (gate st) (confirm cfg) (requested_tool req) of
               (Refused, g') \<Rightarrow>
                 append_turn (st\<lparr>gate := g'\<rparr>)
                   (tool_result req (''Permission denied for tool: '' @ requested_tool req))
             | (Permitted, g') \<Rightarrow>
                 append_turn (st\<lparr>gate := g'\<rparr>)
                   (tool_result req
                      (case execute_tool t (arguments req) of
                         Inr s \<Rightarrow> s
                       | Inl e \<Rightarrow> ''Error executing tool: '' @ str_exn e))))"

text \<open>
  Modelled from the spec: the loop (not among the sources), with the number of
  iterations that remain under the ceiling. Each iteration that asks the provider is
  counted in \<^const>\<open>iterations\<close>.
\<close>

fun run_loop :: "loop_config \<Rightarrow> nat \<Rightarrow> loop_state \<Rightarrow> outcome \<times> loop_state" where
  "run_loop cfg 0 st = (LoopLimitExceeded (conversation st), st)"
| "run_loop cfg (Suc remaining) st =
     (case ask_provider cfg (conversation st) of
        FinalAnswer a \<Rightarrow>
          (Done a,
           append_turn (st\<lparr>iterations := Suc (iterations st)\<rparr>)
             \<lparr>tag = AssistantTurn, turn_text = a, answers_call = None\<rparr>)
      | ProviderError retryable \<Rightarrow>
          (ProviderFailed retryable, st\<lparr>iterations := Suc (iterations st)\<rparr>)
      | ToolRequests reqs \<Rightarrow>
          run_loop cfg remaining
            (foldl (execute_request cfg) (st\<lparr>iterations := Suc (iterations st)\<rparr>) reqs))"

text \<open>
  Modelled from the spec: the caller-facing \<^verbatim>\<open>run(instructions, session_history)\<close>
  (not among the sources), with the session's gate.
\<close>

definition run ::
  "loop_config \<Rightarrow> permission_gate \<Rightarrow> string \<Rightarrow> turn list \<Rightarrow> outcome \<times> loop_state" where
  "run cfg g instructions session_history =
     run_loop cfg (iteration_ceiling cfg)
       \<lparr>conversation = session_history
                        @ [\<lparr>tag = UserTurn, turn_text = instructions, answers_call = None\<rparr>],
        gate = g, iterations = 0\<rparr>"

text \<open>
  A stub provider that asks for the tool \<^verbatim>\<open>echo\<close> on every call, an \<^verbatim>\<open>echo\<close> tool
  that returns its \<^verbatim>\<open>text\<close> argument, and a ceiling of three iterations.
\<close>

definition echo_request :: tool_invocation_request where
  "echo_request = \<lparr>requested_tool = ''echo'', arguments = [(''text'', ''hi'')],
                    call_identifier = ''call-1''\<rparr>"

definition echo_tool :: executable_tool where
  "echo_tool =
     \<lparr>accepts = (\<lambda>args. map_of args ''text'' \<noteq> None),
      execute_tool = (\<lambda>args. case map_of args ''text'' of
                                Some t \<Rightarrow> Inr t
                              | None \<Rightarrow> Inl (KeyError ''text''))\<rparr>"

definition stubborn_config :: loop_config where
  "stubborn_config =
     \<lparr>ask_provider = (\<lambda>conv. ToolRequests [echo_request]),
      loop_tools = [''echo'' \<mapsto> echo_tool],
      confirm = (\<lambda>t. Deny),
      iteration_ceiling = 3\<rparr>"

text \<open>
  What Python's codecs guarantee of the two decoders: a text decoded as UTF-8 has no
  more characters than the input has bytes (a character is read from one to four bytes),
  and Latin-1 decodes every input, one character for each byte.
\<close>

definition python_codecs :: "web_env \<Rightarrow> bool" where
  "python_codecs env =
     (\<forall>b. (\<forall>t. decode_utf8 env b = Some t \<longrightarrow> length t \<le> length b)
          \<and> (\<exists>t. decode_latin1 env b = Some t \<and> length t = length b))"

text \<open>
  A server that answers every request with \<^verbatim>\<open>200 OK\<close> and the body \<^verbatim>\<open>abcdef\<close>,
  and announces it with the header \<^verbatim>\<open>Content-Length: 6\<close>.
\<close>

definition announcing_env :: web_env where
  "announcing_env =
     \<lparr>urlparse = example_urlparse,
      encode_utf8 = (\<lambda>s. Inr s),
      json_loads = (\<lambda>s. Inl (JSONDecodeError ''Expecting value'')),
      request_init = (\<lambda>u d m. Inr ()),
      urlopen = (\<lambda>req timeout. Inr ((example_response ''abcdef'')\<lparr>content_length_header := Some ''6''\<rparr>)),
      int_of_str = (\<lambda>s. if s = ''6'' then Inr 6 else Inl (ValueError ''invalid literal for int()'')),
      decode_utf8 = (\<lambda>b. Some b),
      decode_latin1 = (\<lambda>b. Some b)\<rparr>"

text \<open>
  A machine on which the file with the instructions can be made, and no other temporary
  file; the child process prints \<^verbatim>\<open>done\<close> and exits with 0.
\<close>

definition unsavable_env :: agent_env where
  "unsavable_env =
     \<lparr>named_temporary_file =
        (\<lambda>suffix. if suffix = ''.caw'' then Inr ''/tmp/tmp1.caw''
                  else Inl (OtherException ''No space left on device'')),
      write_file = (\<lambda>path text. Inr ()),
      subprocess_run = (\<lambda>cmd. Inr \<lparr>returncode = 0, stdout = ''done'', stderr = []\<rparr>),
      unlink = (\<lambda>path. Inr ())\<rparr>"

section \<open>Properties\<close>

subsection \<open>The session history\<close>

lemma length_limit_history: "length (limit_history h) \<le> 50"
  by (simp add: limit_history_def)

lemma limit_history_suffix: "limit_history h = drop (length h - 50) h"
  by (simp add: limit_history_def)

text \<open>
  When the model answers, the history is the newest 50 of the old history followed by
  the two new turns, in their order.
\<close>

lemma execute_instruction_answered:
  assumes "get_llm_response u (h @ [\<lparr>role = ''user'', content = u\<rparr>]) = Inr r"
  shows "execute_instruction get_llm_response h u =
           drop (length h + 2 - 50)
             (h @ [\<lparr>role = ''user'', content = u\<rparr>, \<lparr>role = ''assistant'', content = r\<rparr>])"
    and "length (execute_instruction get_llm_response h u) \<le> 50"
  using assms by (simp_all add: execute_instruction_def Let_def limit_history_def)

text \<open>
  When the model call raises, the user turn stays and nothing is evicted.
\<close>

lemma execute_instruction_failed:
  assumes "get_llm_response u (h @ [\<lparr>role = ''user'', content = u\<rparr>]) = Inl e"
  shows "execute_instruction get_llm_response h u = h @ [\<lparr>role = ''user'', content = u\<rparr>]"
  using assms by (simp add: execute_instruction_def Let_def)

text \<open>
  A session in which every model call is answered never ends an instruction with more
  than 50 turns.
\<close>

lemma answered_session_bounded:
  assumes "\<forall>u h. \<exists>r. get_llm_response u h = Inr r" and "length h \<le> 50"
  shows "length (interactive_loop get_llm_response h inputs) \<le> 50"
  using assms(2)
proof (induction inputs arbitrary: h)
  case Nil
  then show ?case by simp
next
  case (Cons user_input rest)
  from assms(1) obtain r where
    "get_llm_response user_input (h @ [\<lparr>role = ''user'', content = user_input\<rparr>]) = Inr r"
    by blast
  then have "length (execute_instruction get_llm_response h user_input) \<le> 50"
    by (rule execute_instruction_answered(2))
  with Cons show ?case by simp
qed

text \<open>
  C2. The claim: the session log never holds more than 50 turns. Evaluated at a session
  of 25 answered instructions followed by one instruction whose model call raises: the
  log holds 50 turns after the 25 answered instructions and 51 after the failed one, and
  each further failed instruction adds one more.
\<close>

theorem session_history_exceeds_limit:
  "length (interactive_loop echo_llm [] (replicate 25 ''go'')) = 50
   \<and> length (execute_instruction unreachable_llm
                (interactive_loop echo_llm [] (replicate 25 ''go'')) ''go'') = 51
   \<and> length (start_interactive_mode unreachable_llm (replicate 60 ''go'')) = 60"
  by code_simp

subsection \<open>load\_config\<close>

text \<open>
  On a list of dicts that each have a name, the search of lines 46-51 is
  \<^const>\<open>find\<close>: it raises nothing and returns the first agent of that name.
\<close>

lemma find_agent_well_formed:
  "list_all is_agent agents \<Longrightarrow> find_agent agents n = Inr (find (agent_named n) agents)"
proof (induction agents)
  case Nil
  then show ?case by simp
next
  case (Cons a agents)
  then obtain kvs v where a: "a = JDict kvs" "map_of kvs ''name'' = Some v"
    by (cases a) auto
  with Cons show ?case by (simp add: agent_named_def)
qed

lemma find_agent_is_dict:
  assumes "list_all is_agent agents" and "find (agent_named n) agents = Some a"
  shows "\<exists>kvs. a = JDict kvs"
proof -
  from assms(2) have "a \<in> set agents" by (auto simp: find_Some_iff)
  with assms(1) have "is_agent a" by (simp add: list_all_iff)
  then show ?thesis by (cases a) auto
qed

text \<open>
  C10, as the claim states it: a non-\<^verbatim>\<open>None\<close> agent name that matches no entry
  raises \<^verbatim>\<open>ValueError\<close>. It fails at the empty name: \<^verbatim>\<open>if agent_name:\<close> is
  false for \<^verbatim>\<open>""\<close>, so no entry is looked for and the first agent is returned.
\<close>

theorem load_config_empty_name_counterexample:
  "find (agent_named '''') [coder_agent] = None
   \<and> load_config one_agent_files (Some '''') =
       Inr (JDict [(''name'', JStr ''coder''), (''provider'', JStr ''openai''),
                   (''verbose'', JBool False)])
   \<and> \<not> is_ValueError (load_config one_agent_files (Some ''''))"
  by (simp add: agent_named_def coder_agent_def one_agent_files_def load_config_def
      read_config_def select_agent_def select_first_def get_verbose_def is_ValueError_def)

text \<open>
  C10, amended. For a loaded configuration that is a dict whose \<^verbatim>\<open>agents\<close> entry is
  a list of dicts that each have a \<^verbatim>\<open>name\<close>: \<^verbatim>\<open>load_config\<close> raises
  \<^verbatim>\<open>ValueError\<close> exactly when a non-empty agent name matches no entry, or when the
  name is \<^verbatim>\<open>None\<close> or empty and the list is empty. Otherwise it returns the selected
  agent's dict (the first of that name; the first of the list when the name is
  \<^verbatim>\<open>None\<close> or empty) with \<^verbatim>\<open>verbose\<close> set to the top-level value, \<^verbatim>\<open>True\<close>
  when there is none, and every other key as the agent has it.
\<close>

theorem load_config_result:
  assumes "read_config fs = Inr (JDict cfg)"
      and "map_of cfg ''agents'' = Some (JList agents)"
      and "list_all is_agent agents"
  shows "(is_ValueError (load_config fs agent_name) \<longleftrightarrow>
            (\<exists>n. agent_name = Some n \<and> n \<noteq> [] \<and> find (agent_named n) agents = None)
            \<or> ((agent_name = None \<or> agent_name = Some []) \<and> agents = []))
         \<and> (\<forall>n kvs. agent_name = Some n \<and> n \<noteq> [] \<and> find (agent_named n) agents = Some (JDict kvs)
              \<longrightarrow> load_config fs agent_name =
                   Inr (JDict (AList.update ''verbose'' (get_verbose (JDict cfg)) kvs)))
         \<and> (\<forall>kvs rest. (agent_name = None \<or> agent_name = Some []) \<and> agents = JDict kvs # rest
              \<longrightarrow> load_config fs agent_name =
                   Inr (JDict (AList.update ''verbose'' (get_verbose (JDict cfg)) kvs)))"
proof -
  have fa: "\<And>n. find_agent agents n = Inr (find (agent_named n) agents)"
    using assms(3) by (rule find_agent_well_formed)
  show ?thesis
  proof (cases agent_name)
    case None
    then show ?thesis using assms
      by (cases agents; cases "hd agents")
         (auto simp: load_config_def select_agent_def select_first_def is_ValueError_def)
  next
    case (Some n)
    show ?thesis
    proof (cases n)
      case Nil
      then show ?thesis using assms Some
        by (cases agents; cases "hd agents")
           (auto simp: load_config_def select_agent_def select_first_def is_ValueError_def)
    next
      case (Cons c cs)
      show ?thesis
      proof (cases "find (agent_named n) agents")
        case None
        then show ?thesis using assms(1,2) Some Cons fa[of n]
          by (auto simp: load_config_def select_agent_def select_named_def is_ValueError_def)
      next
        case found: (Some a)
        with assms(3) obtain kvs where "a = JDict kvs"
          using find_agent_is_dict by blast
        then show ?thesis using assms(1,2) Some found Cons fa[of n]
          by (auto simp: load_config_def select_agent_def select_named_def is_ValueError_def)
      qed
    qed
  qed
qed

theorem load_config_result_witness:
  "read_config one_agent_files
     = Inr (JDict [(''verbose'', JBool False), (''agents'', JList [coder_agent])])
   \<and> list_all is_agent [coder_agent]
   \<and> is_ValueError (load_config one_agent_files (Some ''tester''))
   \<and> load_config one_agent_files (Some ''coder'') =
       Inr (JDict [(''name'', JStr ''coder''), (''provider'', JStr ''openai''),
                   (''verbose'', JBool False)])
   \<and> load_config one_agent_files None =
       Inr (JDict [(''name'', JStr ''coder''), (''provider'', JStr ''openai''),
                   (''verbose'', JBool False)])"
proof -
  have r: "read_config one_agent_files
            = Inr (JDict [(''verbose'', JBool False), (''agents'', JList [coder_agent])])"
    by (simp add: read_config_def one_agent_files_def)
  have m: "map_of [(''verbose'', JBool False), (''agents'', JList [coder_agent])] ''agents''
            = Some (JList [coder_agent])"
    by simp
  have w: "list_all is_agent [coder_agent]"
    by (simp add: coder_agent_def)
  have f: "find (agent_named ''tester'') [coder_agent] = None"
          "find (agent_named ''coder'') [coder_agent] = Some coder_agent"
    by (simp_all add: agent_named_def coder_agent_def)
  show ?thesis
    using r w f
      load_config_result [OF r m w, of "Some ''tester''"]
      load_config_result [OF r m w, of "Some ''coder''"]
      load_config_result [OF r m w, of None]
    by (simp add: coder_agent_def get_verbose_def)
qed

subsection \<open>The web tool: refused URLs\<close>

lemma lower_blocked: "h \<in> set blocked_hosts \<Longrightarrow> lower h = h"
  by (auto simp: blocked_hosts_def lower_def lower_char_def)

lemma unsafe_not_safe:
  assumes "urlparse env url = Inr parsed"
      and "scheme parsed \<notin> {''http'', ''https''}
           \<or> (\<exists>h \<in> set blocked_hosts. hostname parsed = Inr (Some h))"
  shows "\<not> is_safe_url env url"
proof (cases "scheme parsed \<notin> {''http'', ''https''}")
  case True
  with assms(1) show ?thesis by (simp add: is_safe_url_def)
next
  case False
  with assms(2) obtain h where h: "h \<in> set blocked_hosts" "hostname parsed = Inr (Some h)"
    by blast
  from h(1) have "h \<noteq> []" by (auto simp: blocked_hosts_def)
  moreover from h(1) have "lower h \<in> set blocked_hosts" by (simp add: lower_blocked)
  ultimately show ?thesis using assms(1) h(2) by (simp add: is_safe_url_def)
qed

lemma validate_url_text:
  "validate_url env url = Some refusal \<Longrightarrow>
     startswith refusal ''Invalid URL'' \<or> startswith refusal ''Access denied''"
  by (auto simp: validate_url_def startswith_def split: if_splits)

text \<open>
  C8. When \<^verbatim>\<open>urlparse\<close> gives the URL a scheme other than http and https, or one of
  the host names localhost, 127.0.0.1, 0.0.0.0 and ::1, \<^verbatim>\<open>execute\<close> returns a text
  that starts with \<^verbatim>\<open>Invalid URL\<close> or with \<^verbatim>\<open>Access denied\<close>, and nothing has
  been passed to \<^verbatim>\<open>urlopen\<close>. This holds whatever the library calls do.
\<close>

theorem unsafe_url_is_refused:
  assumes "urlparse env url = Inr parsed"
      and "scheme parsed \<notin> {''http'', ''https''}
           \<or> (\<exists>h \<in> set blocked_hosts. hostname parsed = Inr (Some h))"
  shows "\<exists>text. WebTool_execute env url method headers data timeout max_content_length
                   = (Inr text, [])
           \<and> (startswith text ''Invalid URL'' \<or> startswith text ''Access denied'')"
proof -
  have "\<not> is_safe_url env url"
    using assms by (rule unsafe_not_safe)
  then have "validate_url env url \<noteq> None"
    by (simp add: validate_url_def)
  then obtain refusal where r: "validate_url env url = Some refusal" by blast
  then have "startswith refusal ''Invalid URL'' \<or> startswith refusal ''Access denied''"
    by (rule validate_url_text)
  with r show ?thesis
    by (simp add: WebTool_execute_def make_request_def request_body_def)
qed

theorem unsafe_url_is_refused_witness:
  "urlparse (example_env ''abc'') ''http://localhost/admin''
     = Inr \<lparr>scheme = ''http'', hostname = Inr (Some ''localhost'')\<rparr>
   \<and> ''localhost'' \<in> set blocked_hosts
   \<and> (\<exists>text. WebTool_execute (example_env ''abc'') ''http://localhost/admin'' ''GET'' None None
                 30 1048576 = (Inr text, [])
         \<and> (startswith text ''Invalid URL'' \<or> startswith text ''Access denied''))"
proof -
  have p: "urlparse (example_env ''abc'') ''http://localhost/admin''
             = Inr \<lparr>scheme = ''http'', hostname = Inr (Some ''localhost'')\<rparr>"
    by code_simp
  have b: "''localhost'' \<in> set blocked_hosts"
    by (simp add: blocked_hosts_def)
  have h: "scheme \<lparr>scheme = ''http'', hostname = Inr (Some ''localhost'')\<rparr> \<notin> {''http'', ''https''}
           \<or> (\<exists>h \<in> set blocked_hosts.
                 hostname \<lparr>scheme = ''http'', hostname = Inr (Some ''localhost'')\<rparr> = Inr (Some h))"
    using b by simp
  show ?thesis
    using p b unsafe_url_is_refused [OF p h, of "''GET''" None None 30 1048576] by simp
qed

subsection \<open>The web tool: the size of the content\<close>

lemma limit_content_nonneg:
  assumes "0 \<le> limit"
  shows "limit_content body limit = (take (nat limit) body, limit < int (length body))"
  using assms by (auto simp: limit_content_def slice_to_def)

lemma read_response_limited:
  assumes "0 \<le> limit"
      and "content_too_large env response limit = Inr False"
      and "read response = Inr body"
  shows "read_response env response limit
           = Inr (render_result env response (take (nat limit) body) (limit < int (length body)) limit)"
  using assms by (simp add: read_response_def limit_content_nonneg)

lemma execute_effective_limit:
  "WebTool_execute env url method headers data timeout max_content_length
     = WebTool_execute env url method headers data timeout (min max_content_length 10485760)"
proof -
  have "request_body env url method headers data timeout max_content_length
          = request_body env url method headers data timeout (min max_content_length 10485760)"
    by (cases "validate_url env url") (simp_all add: request_body_def Let_def)
  then show ?thesis
    by (simp add: WebTool_execute_def make_request_def)
qed

text \<open>With a response in hand, the result is what \<^const>\<open>read_response\<close> gives.\<close>

lemma execute_with_response:
  assumes "validate_url env url = None"
      and "build_request env url method headers data = Inr req"
      and "urlopen env req timeout = Inr response"
  shows "fst (WebTool_execute env url method headers data timeout max_content_length)
           = (case read_response env response (min max_content_length 10485760) of
                Inl e \<Rightarrow> Inr (request_failed e url timeout)
              | Inr t \<Rightarrow> Inr t)"
  using assms
  by (cases "read_response env response (min max_content_length 10485760)")
     (simp_all add: WebTool_execute_def make_request_def request_body_def Let_def)

lemma decode_text_length:
  assumes "python_codecs env"
  shows "\<exists>t. decode_text env b = Some t \<and> length t \<le> length b"
proof (cases "decode_utf8 env b")
  case None
  from assms obtain t where "decode_latin1 env b = Some t" "length t = length b"
    unfolding python_codecs_def by blast
  with None show ?thesis by (simp add: decode_text_def)
next
  case (Some t)
  with assms have "length t \<le> length b"
    unfolding python_codecs_def by blast
  with Some show ?thesis by (simp add: decode_text_def)
qed

text \<open>
  C9, as the claim states it, for every invocation. It fails at a negative limit: with
  \<^verbatim>\<open>max_content_length = -1\<close> the effective limit is -1, every body is longer, and
  \<^verbatim>\<open>content[:-1]\<close> drops the last byte only; of the body \<^verbatim>\<open>abc\<close> the two bytes
  \<^verbatim>\<open>ab\<close> are returned, more than the limit and not that many. It also fails for a
  body that its Content-Length header announces as larger than the limit: with the header
  \<^verbatim>\<open>Content-Length: 6\<close> and the limit 4 the body is not read, nothing is truncated or
  marked, and the result is the refusal \<^verbatim>\<open>Content too large\<close>.
\<close>

theorem negative_limit_counterexample:
  "fst (WebTool_execute (example_env ''abc'') ''http://example.com/'' ''GET'' None None 30 (- 1))
     = Inr (''HTTP 200 OK'' @ nl @ ''URL: http://example.com/'' @ nl @ ''Content-Type: unknown'' @ nl
            @ ''Content-Length: 2 bytes'' @ nl @ ''(Content truncated to -1 bytes)'' @ nl @ nl
            @ replicate 50 (CHR ''='') @ nl @ ''ab'')
   \<and> min (- 1) 10485760 < int (length ''ab'')
   \<and> fst (WebTool_execute announcing_env ''http://example.com/'' ''GET'' None None 30 4)
       = Inr ''Content too large: 6 bytes (max: 4)''"
  by code_simp

text \<open>
  C9, amended to a requested limit that is not negative and to what the code does with
  the Content-Length header, with decoders that are Python's. The result of
  \<^verbatim>\<open>execute\<close> is the one for the effective limit, the minimum of the requested value
  and 10485760. For every request that is sent and answered:
  \<^item> when the Content-Length header announces more than the limit, the body is not read
    and the result is \<^verbatim>\<open>Content too large: <header> bytes (max: <limit>)\<close>;
  \<^item> when the header is absent, empty or within the limit and the body is read, the
    content kept is the first \<open>limit\<close> bytes of the body, the result is the four header
    lines, the separator and the decoded content, and neither the content kept (in bytes)
    nor its text in the result (in characters) exceeds the limit; a longer body is cut
    to exactly \<open>limit\<close> bytes and the result then has the line
    \<^verbatim>\<open>(Content truncated to <limit> bytes)\<close> before the separator;
  \<^item> when the header is not an integer, or reading the body raises, the result is the
    error text of the handler, with no content.
\<close>

theorem content_is_limited:
  assumes "0 \<le> max_content_length" and "python_codecs env"
  shows "let limit = min max_content_length 10485760;
             r = fst (WebTool_execute env url method headers data timeout max_content_length)
         in WebTool_execute env url method headers data timeout max_content_length
              = WebTool_execute env url method headers data timeout limit
          \<and> (\<forall>req response.
                validate_url env url = None
                \<and> build_request env url method headers data = Inr req
                \<and> urlopen env req timeout = Inr response \<longrightarrow>
                (content_too_large env response limit = Inr True \<longrightarrow>
                   r = Inr (''Content too large: ''
                            @ (case content_length_header response of Some cl \<Rightarrow> cl | None \<Rightarrow> [])
                            @ '' bytes (max: '' @ str_int limit @ '')''))
                \<and> (\<forall>body. content_too_large env response limit = Inr False
                       \<and> read response = Inr body \<longrightarrow>
                       (\<exists>t. decode_text env (take (nat limit) body) = Some t
                          \<and> int (length (take (nat limit) body)) \<le> limit
                          \<and> int (length t) \<le> limit
                          \<and> (limit < int (length body) \<longrightarrow>
                                int (length (take (nat limit) body)) = limit)
                          \<and> r = Inr (''HTTP '' @ str_int (status response) @ '' ''
                                     @ reason response @ nl
                                     @ ''URL: '' @ final_url response @ nl
                                     @ ''Content-Type: ''
                                     @ (case content_type_header response of
                                          None \<Rightarrow> ''unknown'' | Some ct \<Rightarrow> ct) @ nl
                                     @ ''Content-Length: ''
                                     @ str_int (int (length (take (nat limit) body)))
                                     @ '' bytes'' @ nl
                                     @ (if limit < int (length body)
                                        then ''(Content truncated to '' @ str_int limit
                                             @ '' bytes)'' @ nl
                                        else [])
                                     @ nl @ replicate 50 (CHR ''='') @ nl @ t)))
                \<and> (\<forall>e. content_too_large env response limit = Inl e
                         \<or> (content_too_large env response limit = Inr False
                            \<and> read response = Inl e) \<longrightarrow>
                       r = Inr (request_failed e url timeout)))"
proof -
  define limit where "limit = min max_content_length 10485760"
  define r where "r = fst (WebTool_execute env url method headers data timeout max_content_length)"
  have nonneg: "0 \<le> limit"
    using assms(1) by (simp add: limit_def)
  have eff: "WebTool_execute env url method headers data timeout max_content_length
             = WebTool_execute env url method headers data timeout limit"
    unfolding limit_def by (rule execute_effective_limit)
  have answered: "(content_too_large env response limit = Inr True \<longrightarrow>
                   r = Inr (''Content too large: ''
                            @ (case content_length_header response of Some cl \<Rightarrow> cl | None \<Rightarrow> [])
                            @ '' bytes (max: '' @ str_int limit @ '')''))
                \<and> (\<forall>body. content_too_large env response limit = Inr False
                       \<and> read response = Inr body \<longrightarrow>
                       (\<exists>t. decode_text env (take (nat limit) body) = Some t
                          \<and> int (length (take (nat limit) body)) \<le> limit
                          \<and> int (length t) \<le> limit
                          \<and> (limit < int (length body) \<longrightarrow>
                                int (length (take (nat limit) body)) = limit)
                          \<and> r = Inr (''HTTP '' @ str_int (status response) @ '' ''
                                     @ reason response @ nl
                                     @ ''URL: '' @ final_url response @ nl
                                     @ ''Content-Type: ''
                                     @ (case content_type_header response of
                                          None \<Rightarrow> ''unknown'' | Some ct \<Rightarrow> ct) @ nl
                                     @ ''Content-Length: ''
                                     @ str_int (int (length (take (nat limit) body)))
                                     @ '' bytes'' @ nl
                                     @ (if limit < int (length body)
                                        then ''(Content truncated to '' @ str_int limit
                                             @ '' bytes)'' @ nl
                                        else [])
                                     @ nl @ replicate 50 (CHR ''='') @ nl @ t)))
                \<and> (\<forall>e. content_too_large env response limit = Inl e
                         \<or> (content_too_large env response limit = Inr False
                            \<and> read response = Inl e) \<longrightarrow>
                       r = Inr (request_failed e url timeout))"
    if sent: "validate_url env url = None"
             "build_request env url method headers data = Inr req"
             "urlopen env req timeout = Inr response"
    for req response
  proof -
    have res: "r = (case read_response env response limit of
                      Inl e \<Rightarrow> Inr (request_failed e url timeout)
                    | Inr t \<Rightarrow> Inr t)"
      unfolding r_def limit_def using sent by (rule execute_with_response)
    have too_large: "r = Inr (''Content too large: ''
                            @ (case content_length_header response of Some cl \<Rightarrow> cl | None \<Rightarrow> [])
                            @ '' bytes (max: '' @ str_int limit @ '')'')"
      if "content_too_large env response limit = Inr True"
      using that res by (simp add: read_response_def)
    have failed: "r = Inr (request_failed e url timeout)"
      if "content_too_large env response limit = Inl e
          \<or> (content_too_large env response limit = Inr False \<and> read response = Inl e)" for e
      using that res by (auto simp: read_response_def)
    have kept: "\<exists>t. decode_text env (take (nat limit) body) = Some t
                          \<and> int (length (take (nat limit) body)) \<le> limit
                          \<and> int (length t) \<le> limit
                          \<and> (limit < int (length body) \<longrightarrow>
                                int (length (take (nat limit) body)) = limit)
                          \<and> r = Inr (''HTTP '' @ str_int (status response) @ '' ''
                                     @ reason response @ nl
                                     @ ''URL: '' @ final_url response @ nl
                                     @ ''Content-Type: ''
                                     @ (case content_type_header response of
                                          None \<Rightarrow> ''unknown'' | Some ct \<Rightarrow> ct) @ nl
                                     @ ''Content-Length: ''
                                     @ str_int (int (length (take (nat limit) body)))
                                     @ '' bytes'' @ nl
                                     @ (if limit < int (length body)
                                        then ''(Content truncated to '' @ str_int limit
                                             @ '' bytes)'' @ nl
                                        else [])
                                     @ nl @ replicate 50 (CHR ''='') @ nl @ t)"
      if rd: "content_too_large env response limit = Inr False \<and> read response = Inr body"
      for body
    proof -
      from assms(2) obtain t where
        t: "decode_text env (take (nat limit) body) = Some t"
           "length t \<le> length (take (nat limit) body)"
        using decode_text_length by blast
      have len: "int (length (take (nat limit) body)) \<le> limit"
        using nonneg by simp
      with t(2) have tlen: "int (length t) \<le> limit"
        by linarith
      have exact: "limit < int (length body) \<longrightarrow> int (length (take (nat limit) body)) = limit"
        using nonneg by auto
      have "read_response env response limit
              = Inr (render_result env response (take (nat limit) body)
                       (limit < int (length body)) limit)"
        using nonneg rd by (simp add: read_response_limited)
      with res t(1) have "r = Inr (''HTTP '' @ str_int (status response) @ '' ''
                                     @ reason response @ nl
                                     @ ''URL: '' @ final_url response @ nl
                                     @ ''Content-Type: ''
                                     @ (case content_type_header response of
                                          None \<Rightarrow> ''unknown'' | Some ct \<Rightarrow> ct) @ nl
                                     @ ''Content-Length: ''
                                     @ str_int (int (length (take (nat limit) body)))
                                     @ '' bytes'' @ nl
                                     @ (if limit < int (length body)
                                        then ''(Content truncated to '' @ str_int limit
                                             @ '' bytes)'' @ nl
                                        else [])
                                     @ nl @ replicate 50 (CHR ''='') @ nl @ t)"
        by (simp add: render_result_def)
      with t(1) len tlen exact show ?thesis by blast
    qed
    from too_large failed kept show ?thesis by blast
  qed
  show ?thesis
    unfolding Let_def limit_def [symmetric] r_def [symmetric]
    using eff answered by blast
qed

theorem content_is_limited_witness:
  "(0::int) \<le> 4
   \<and> python_codecs (example_env ''abcdef'')
   \<and> python_codecs announcing_env
   \<and> read (example_response ''abcdef'') = Inr ''abcdef''
   \<and> fst (WebTool_execute (example_env ''abcdef'') ''http://example.com/'' ''GET'' None None 30 4)
       = Inr (''HTTP 200 OK'' @ nl @ ''URL: http://example.com/'' @ nl @ ''Content-Type: unknown'' @ nl
              @ ''Content-Length: 4 bytes'' @ nl @ ''(Content truncated to 4 bytes)'' @ nl @ nl
              @ replicate 50 (CHR ''='') @ nl @ ''abcd'')
   \<and> fst (WebTool_execute announcing_env ''http://example.com/'' ''GET'' None None 30 4)
       = Inr ''Content too large: 6 bytes (max: 4)''"
proof -
  let ?req = "\<lparr>req_url = ''http://example.com/'', req_data = None, req_method = ''GET'',
               req_headers = [(''User-Agent'', ''Eagle-WebTool/1.0'')]\<rparr>"
  let ?announced = "(example_response ''abcdef'')\<lparr>content_length_header := Some ''6''\<rparr>"
  have h1: "(0::int) \<le> 4" by simp
  have c1: "python_codecs (example_env ''abcdef'')"
    by (simp add: python_codecs_def example_env_def)
  have c2: "python_codecs announcing_env"
    by (simp add: python_codecs_def announcing_env_def)
  have v1: "validate_url (example_env ''abcdef'') ''http://example.com/'' = None"
    by code_simp
  have b1: "build_request (example_env ''abcdef'') ''http://example.com/'' ''GET'' None None = Inr ?req"
    by code_simp
  have u1: "urlopen (example_env ''abcdef'') ?req 30 = Inr (example_response ''abcdef'')"
    by (simp add: example_env_def)
  have l1: "content_too_large (example_env ''abcdef'') (example_response ''abcdef'')
              (min 4 10485760) = Inr False"
    by (simp add: content_too_large_def example_response_def)
  have r1: "read (example_response ''abcdef'') = Inr ''abcdef''"
    by (simp add: example_response_def)
  have d1: "decode_text (example_env ''abcdef'') (take (nat (min 4 10485760)) ''abcdef'') = Some ''abcd''"
    by (simp add: decode_text_def example_env_def)
  have v2: "validate_url announcing_env ''http://example.com/'' = None"
    by code_simp
  have b2: "build_request announcing_env ''http://example.com/'' ''GET'' None None = Inr ?req"
    by code_simp
  have u2: "urlopen announcing_env ?req 30 = Inr ?announced"
    by (simp add: announcing_env_def)
  have l2: "content_too_large announcing_env ?announced (min 4 10485760) = Inr True"
    by (simp add: content_too_large_def example_response_def announcing_env_def)
  note cut = content_is_limited [OF h1 c1, of "''http://example.com/''" "''GET''" None None 30,
      unfolded Let_def]
  note refused = content_is_limited [OF h1 c2, of "''http://example.com/''" "''GET''" None None 30,
      unfolded Let_def]
  from cut v1 b1 u1 l1 r1 obtain t where
    t: "decode_text (example_env ''abcdef'') (take (nat (min 4 10485760)) ''abcdef'') = Some t"
    and rt: "fst (WebTool_execute (example_env ''abcdef'') ''http://example.com/'' ''GET'' None None 30 4)
         = Inr (''HTTP '' @ str_int (status (example_response ''abcdef'')) @ '' ''
                @ reason (example_response ''abcdef'') @ nl
                @ ''URL: '' @ final_url (example_response ''abcdef'') @ nl
                @ ''Content-Type: ''
                @ (case content_type_header (example_response ''abcdef'') of
                     None \<Rightarrow> ''unknown'' | Some ct \<Rightarrow> ct) @ nl
                @ ''Content-Length: ''
                @ str_int (int (length (take (nat (min 4 10485760)) ''abcdef'')))
                @ '' bytes'' @ nl
                @ (if min 4 10485760 < int (length ''abcdef'')
                   then ''(Content truncated to '' @ str_int (min 4 10485760) @ '' bytes)'' @ nl
                   else [])
                @ nl @ replicate 50 (CHR ''='') @ nl @ t)"
    by blast
  from t d1 have "t = ''abcd''" by simp
  have e1: "''HTTP '' @ str_int (status (example_response ''abcdef'')) @ '' ''
                @ reason (example_response ''abcdef'') @ nl
                @ ''URL: '' @ final_url (example_response ''abcdef'') @ nl
                @ ''Content-Type: ''
                @ (case content_type_header (example_response ''abcdef'') of
                     None \<Rightarrow> ''unknown'' | Some ct \<Rightarrow> ct) @ nl
                @ ''Content-Length: ''
                @ str_int (int (length (take (nat (min 4 10485760)) ''abcdef'')))
                @ '' bytes'' @ nl
                @ (if min 4 10485760 < int (length ''abcdef'')
                   then ''(Content truncated to '' @ str_int (min 4 10485760) @ '' bytes)'' @ nl
                   else [])
                @ nl @ replicate 50 (CHR ''='') @ nl @ ''abcd''
            = ''HTTP 200 OK'' @ nl @ ''URL: http://example.com/'' @ nl @ ''Content-Type: unknown'' @ nl
              @ ''Content-Length: 4 bytes'' @ nl @ ''(Content truncated to 4 bytes)'' @ nl @ nl
              @ replicate 50 (CHR ''='') @ nl @ ''abcd''"
    by code_simp
  from rt have w1: "fst (WebTool_execute (example_env ''abcdef'') ''http://example.com/'' ''GET'' None None 30 4)
       = Inr (''HTTP 200 OK'' @ nl @ ''URL: http://example.com/'' @ nl @ ''Content-Type: unknown'' @ nl
              @ ''Content-Length: 4 bytes'' @ nl @ ''(Content truncated to 4 bytes)'' @ nl @ nl
              @ replicate 50 (CHR ''='') @ nl @ ''abcd'')"
    unfolding \<open>t = ''abcd''\<close> by (simp only: e1)
  have e2: "''Content too large: ''
              @ (case content_length_header ?announced of Some cl \<Rightarrow> cl | None \<Rightarrow> [])
              @ '' bytes (max: '' @ str_int (min 4 10485760) @ '')''
            = ''Content too large: 6 bytes (max: 4)''"
    by code_simp
  from refused v2 b2 u2 l2
  have "fst (WebTool_execute announcing_env ''http://example.com/'' ''GET'' None None 30 4)
       = Inr (''Content too large: ''
              @ (case content_length_header ?announced of Some cl \<Rightarrow> cl | None \<Rightarrow> [])
              @ '' bytes (max: '' @ str_int (min 4 10485760) @ '')'')"
    by blast
  then have w2: "fst (WebTool_execute announcing_env ''http://example.com/'' ''GET'' None None 30 4)
       = Inr ''Content too large: 6 bytes (max: 4)''"
    by (simp only: e2)
  show ?thesis
    using h1 c1 c2 r1 w1 w2 by blast
qed

subsection \<open>The tools return text\<close>

lemma make_request_returns_text:
  "returns_text (fst (make_request env url method headers data timeout max_content_length))"
  by (cases "request_body env url method headers data timeout max_content_length";
      cases "fst (request_body env url method headers data timeout max_content_length)")
     (simp_all add: make_request_def returns_text_def)

lemma dropped_result: "(case r of Inl e \<Rightarrow> x | Inr u \<Rightarrow> x) = x"
  by (cases r) simp_all

lemma run_agent_timeout:
  "subprocess_run env cmd = Inl (TimeoutExpired m) \<Longrightarrow>
     run_agent env temp cmd agent save_output = Inr ''Agent call timed out after 5 minutes''"
  by (simp add: run_agent_def)

lemma run_agent_failed:
  assumes "subprocess_run env cmd = Inr result" and "returncode result \<noteq> 0"
  shows "run_agent env temp cmd agent save_output
           = Inr (''Agent call to '' @ agent_label agent @ '' failed (exit code ''
                  @ str_int (returncode result) @ ''):'' @ nl @ nl
                  @ ''Stdout:'' @ nl @ stdout result @ nl @ nl
                  @ ''Stderr:'' @ nl @ stderr result)"
  using assms by (simp add: run_agent_def report_result_def dropped_result)

text \<open>
  C3. Whatever the library calls return or raise, \<^verbatim>\<open>execute\<close> of the web tool and
  \<^verbatim>\<open>execute\<close> of the call\_agent tool return text. The failures are in that text: an
  exception of \<^verbatim>\<open>urlopen\<close> (a transport error, an HTTP error, a timeout) gives the
  text of the matching \<^verbatim>\<open>except\<close> clause; a child process that exceeds its time
  gives \<^verbatim>\<open>Agent call timed out after 5 minutes\<close>; one that exits with a code other
  than 0 gives the text with that code, its output and its errors; every other exception
  in the call\_agent tool gives \<^verbatim>\<open>Error executing agent call: \<close> and its message.
\<close>

theorem execute_returns_text:
  "returns_text (fst (WebTool_execute wenv url method headers data timeout max_content_length))
   \<and> returns_text (CallAgentTool_execute aenv instructions agent provider model rules save_output)
   \<and> (\<forall>req e. validate_url wenv url = None
         \<and> build_request wenv url method headers data = Inr req
         \<and> urlopen wenv req timeout = Inl e \<longrightarrow>
         fst (WebTool_execute wenv url method headers data timeout max_content_length)
           = Inr (request_failed e url timeout))
   \<and> (\<forall>path m. named_temporary_file aenv ''.caw'' = Inr path
         \<and> write_file aenv path instructions = Inr ()
         \<and> subprocess_run aenv (build_command path agent provider model rules)
             = Inl (TimeoutExpired m) \<longrightarrow>
         CallAgentTool_execute aenv instructions agent provider model rules save_output
           = Inr ''Agent call timed out after 5 minutes'')
   \<and> (\<forall>path result. named_temporary_file aenv ''.caw'' = Inr path
         \<and> write_file aenv path instructions = Inr ()
         \<and> subprocess_run aenv (build_command path agent provider model rules) = Inr result
         \<and> returncode result \<noteq> 0 \<longrightarrow>
         CallAgentTool_execute aenv instructions agent provider model rules save_output
           = Inr (''Agent call to '' @ agent_label agent @ '' failed (exit code ''
                  @ str_int (returncode result) @ ''):'' @ nl @ nl
                  @ ''Stdout:'' @ nl @ stdout result @ nl @ nl
                  @ ''Stderr:'' @ nl @ stderr result))
   \<and> (\<forall>e. agent_body aenv instructions agent provider model rules save_output = Inl e \<longrightarrow>
         CallAgentTool_execute aenv instructions agent provider model rules save_output
           = Inr (''Error executing agent call: '' @ str_exn e))"
proof (intro conjI allI impI)
  show "returns_text (fst (WebTool_execute wenv url method headers data timeout max_content_length))"
    unfolding WebTool_execute_def by (rule make_request_returns_text)
next
  show "returns_text (CallAgentTool_execute aenv instructions agent provider model rules save_output)"
    by (cases "agent_body aenv instructions agent provider model rules save_output")
       (simp_all add: CallAgentTool_execute_def returns_text_def)
next
  fix req e
  assume "validate_url wenv url = None
         \<and> build_request wenv url method headers data = Inr req
         \<and> urlopen wenv req timeout = Inl e"
  then show "fst (WebTool_execute wenv url method headers data timeout max_content_length)
           = Inr (request_failed e url timeout)"
    by (simp add: WebTool_execute_def make_request_def request_body_def Let_def)
next
  fix path m
  assume "named_temporary_file aenv ''.caw'' = Inr path
         \<and> write_file aenv path instructions = Inr ()
         \<and> subprocess_run aenv (build_command path agent provider model rules)
             = Inl (TimeoutExpired m)"
  then show "CallAgentTool_execute aenv instructions agent provider model rules save_output
           = Inr ''Agent call timed out after 5 minutes''"
    by (simp add: CallAgentTool_execute_def agent_body_def run_agent_timeout)
next
  fix path result
  assume "named_temporary_file aenv ''.caw'' = Inr path
         \<and> write_file aenv path instructions = Inr ()
         \<and> subprocess_run aenv (build_command path agent provider model rules) = Inr result
         \<and> returncode result \<noteq> 0"
  then show "CallAgentTool_execute aenv instructions agent provider model rules save_output
           = Inr (''Agent call to '' @ agent_label agent @ '' failed (exit code ''
                  @ str_int (returncode result) @ ''):'' @ nl @ nl
                  @ ''Stdout:'' @ nl @ stdout result @ nl @ nl
                  @ ''Stderr:'' @ nl @ stderr result)"
    by (simp add: CallAgentTool_execute_def agent_body_def run_agent_failed)
next
  fix e
  assume "agent_body aenv instructions agent provider model rules save_output = Inl e"
  then show "CallAgentTool_execute aenv instructions agent provider model rules save_output
           = Inr (''Error executing agent call: '' @ str_exn e)"
    by (simp add: CallAgentTool_execute_def)
qed

theorem execute_returns_text_witness:
  "validate_url refusing_env ''http://example.com/'' = None
   \<and> fst (WebTool_execute refusing_env ''http://example.com/'' ''GET'' None None 30 1048576)
       = Inr (''URL Error: Connection refused'' @ nl @ ''URL: http://example.com/'')
   \<and> subprocess_run hanging_env (build_command ''/tmp/tmp1.caw'' None None None None)
       = Inl (TimeoutExpired ''timed out after 300 seconds'')
   \<and> CallAgentTool_execute hanging_env ''hi'' None None None None False
       = Inr ''Agent call timed out after 5 minutes''
   \<and> returns_text (CallAgentTool_execute failing_env ''hi'' None None None None False)
   \<and> CallAgentTool_execute failing_env ''hi'' None None None None False
       = Inr ''Error executing agent call: No space left on device''"
proof -
  let ?req = "\<lparr>req_url = ''http://example.com/'', req_data = None, req_method = ''GET'',
               req_headers = [(''User-Agent'', ''Eagle-WebTool/1.0'')]\<rparr>"
  have w1: "validate_url refusing_env ''http://example.com/'' = None"
    by code_simp
  have w2: "build_request refusing_env ''http://example.com/'' ''GET'' None None = Inr ?req"
    by code_simp
  have w3: "urlopen refusing_env ?req 30 = Inl (URLError ''Connection refused'')"
    by (simp add: refusing_env_def)
  have a1: "named_temporary_file hanging_env ''.caw'' = Inr ''/tmp/tmp1.caw''"
    by (simp add: hanging_env_def)
  have a2: "write_file hanging_env ''/tmp/tmp1.caw'' ''hi'' = Inr ()"
    by (simp add: hanging_env_def)
  have a3: "subprocess_run hanging_env (build_command ''/tmp/tmp1.caw'' None None None None)
              = Inl (TimeoutExpired ''timed out after 300 seconds'')"
    by (simp add: hanging_env_def)
  have f1: "agent_body failing_env ''hi'' None None None None False
              = Inl (OtherException ''No space left on device'')"
    by (simp add: agent_body_def failing_env_def)
  note hanging = execute_returns_text [of refusing_env "''http://example.com/''" "''GET''" None
      None 30 1048576 hanging_env "''hi''" None None None None False]
  note failing = execute_returns_text [of refusing_env "''http://example.com/''" "''GET''" None
      None 30 1048576 failing_env "''hi''" None None None None False]
  have r1: "fst (WebTool_execute refusing_env ''http://example.com/'' ''GET'' None None 30 1048576)
              = Inr (request_failed (URLError ''Connection refused'') ''http://example.com/'' 30)"
    using hanging w1 w2 w3 by blast
  have r2: "CallAgentTool_execute hanging_env ''hi'' None None None None False
              = Inr ''Agent call timed out after 5 minutes''"
    using hanging a1 a2 a3 by blast
  have r3: "returns_text (CallAgentTool_execute failing_env ''hi'' None None None None False)"
    using failing by blast
  have r4: "CallAgentTool_execute failing_env ''hi'' None None None None False
              = Inr (''Error executing agent call: ''
                     @ str_exn (OtherException ''No space left on device''))"
    using failing f1 by blast
  show ?thesis
    using w1 a3 r1 r2 r3 r4 by simp
qed

subsection \<open>The call\_agent tool: what is returned\<close>

text \<open>
  C4, as the claim states it: every call runs the delegated agent to completion and
  returns its final answer as the result. A child that does not end within 300 seconds
  is given up, and the result is the timeout text. A child that prints \<^verbatim>\<open>done\<close> and
  exits with 0 does not give the result \<^verbatim>\<open>done\<close>: the result is a line about the
  call, an empty line, and all the child has printed.
\<close>

theorem call_agent_result_counterexample:
  "CallAgentTool_execute hanging_env ''hi'' None None None None False
     = Inr ''Agent call timed out after 5 minutes''
   \<and> subprocess_run finishing_env (build_command ''/tmp/tmp1.caw'' None None None None)
       = Inr \<lparr>returncode = 0, stdout = ''done'', stderr = []\<rparr>
   \<and> CallAgentTool_execute finishing_env ''hi'' None None None None False
       = Inr (''Agent call to default agent completed successfully:'' @ nl @ nl @ ''done'')
   \<and> CallAgentTool_execute finishing_env ''hi'' None None None None False \<noteq> Inr ''done''"
  by (simp add: CallAgentTool_execute_def agent_body_def run_agent_def report_result_def
      hanging_env_def finishing_env_def agent_label_def nl_def dropped_result)

text \<open>What the two inner \<^verbatim>\<open>except\<close> clauses and the outer one make of an exception
  that is raised after the child process has been started.\<close>

lemma execute_after_start:
  assumes "named_temporary_file env ''.caw'' = Inr path"
      and "write_file env path instructions = Inr ()"
  shows "CallAgentTool_execute env instructions agent provider model rules save_output
           = (case run_agent env path (build_command path agent provider model rules)
                     agent save_output of
                Inl e \<Rightarrow> Inr (''Error executing agent call: '' @ str_exn e)
              | Inr t \<Rightarrow> Inr t)"
  using assms by (simp add: CallAgentTool_execute_def agent_body_def)

lemma run_agent_raised:
  assumes "(case subprocess_run env cmd of
              Inl e \<Rightarrow> Inl e
            | Inr result \<Rightarrow> report_result env result agent save_output) = Inl e"
  shows "(case run_agent env temp cmd agent save_output of
            Inl e' \<Rightarrow> Inr (''Error executing agent call: '' @ str_exn e')
          | Inr t \<Rightarrow> Inr t)
         = Inr (case e of
                  TimeoutExpired m \<Rightarrow> ''Agent call timed out after 5 minutes''
                | FileNotFoundError m \<Rightarrow>
                    ''Error: 'eagle' command not found. Make sure Eagle is installed and in your PATH.''
                | _ \<Rightarrow> ''Error executing agent call: '' @ str_exn e)"
proof -
  have "run_agent env temp cmd agent save_output
          = (case e of
               TimeoutExpired m \<Rightarrow> Inr ''Agent call timed out after 5 minutes''
             | FileNotFoundError m \<Rightarrow>
                 Inr ''Error: 'eagle' command not found. Make sure Eagle is installed and in your PATH.''
             | _ \<Rightarrow> Inl e)"
  proof (cases "subprocess_run env cmd")
    case (Inl e')
    with assms have "e' = e" by simp
    with Inl show ?thesis by (cases e) (simp_all add: run_agent_def)
  next
    case (Inr result)
    with assms have "report_result env result agent save_output = Inl e" by simp
    with Inr show ?thesis by (cases e) (simp_all add: run_agent_def dropped_result)
  qed
  then show ?thesis by (cases e) simp_all
qed

lemma run_agent_returned:
  assumes "subprocess_run env cmd = Inr result"
      and "report_result env result agent save_output = Inr t"
  shows "run_agent env temp cmd agent save_output = Inr t"
  using assms by (simp add: run_agent_def dropped_result)

text \<open>
  C4, amended. When the temporary file with the instructions is written, the delegated
  run is the child process \<^verbatim>\<open>eagle run <file> ...\<close> under a limit of 300 seconds,
  and the result of \<^verbatim>\<open>execute\<close> is:
  \<^item> \<^verbatim>\<open>Agent call timed out after 5 minutes\<close> when the child does not end within the
    limit;
  \<^item> when the child ends with exit code 0 and \<^verbatim>\<open>save_output\<close> is not set, the line
    \<^verbatim>\<open>Agent call to <agent> completed successfully:\<close>, an empty line and the whole
    standard output of the child;
  \<^item> when the child ends with exit code 0, \<^verbatim>\<open>save_output\<close> is set and the output
    file is written, the same text followed by a note with the file's name;
  \<^item> when the child ends with exit code 0, \<^verbatim>\<open>save_output\<close> is set and making or
    writing the output file raises, not the output but the text for that exception: the
    timeout text for \<^verbatim>\<open>TimeoutExpired\<close>, the \<^verbatim>\<open>'eagle' command not found\<close> text
    for \<^verbatim>\<open>FileNotFoundError\<close>, else \<^verbatim>\<open>Error executing agent call: \<close> and the
    message.
\<close>

theorem call_agent_result:
  assumes "named_temporary_file env ''.caw'' = Inr path"
      and "write_file env path instructions = Inr ()"
  shows "let cmd = build_command path agent provider model rules;
             r = CallAgentTool_execute env instructions agent provider model rules save_output;
             done_text = ''Agent call to '' @ agent_label agent @ '' completed successfully:''
                         @ nl @ nl
         in (\<forall>m. subprocess_run env cmd = Inl (TimeoutExpired m) \<longrightarrow>
                r = Inr ''Agent call timed out after 5 minutes'')
          \<and> (\<forall>result. subprocess_run env cmd = Inr result \<and> returncode result = 0 \<longrightarrow>
                (\<not> save_output \<longrightarrow> r = Inr (done_text @ stdout result))
                \<and> (\<forall>name. save_output
                       \<and> named_temporary_file env ''.txt'' = Inr name
                       \<and> write_file env name (stdout result) = Inr () \<longrightarrow>
                       r = Inr (done_text @ stdout result @ nl @ nl
                                @ ''Output saved to: '' @ name))
                \<and> (\<forall>e. save_output
                       \<and> (named_temporary_file env ''.txt'' = Inl e
                          \<or> (\<exists>name. named_temporary_file env ''.txt'' = Inr name
                                \<and> write_file env name (stdout result) = Inl e)) \<longrightarrow>
                       r = Inr (case e of
                                  TimeoutExpired m \<Rightarrow> ''Agent call timed out after 5 minutes''
                                | FileNotFoundError m \<Rightarrow>
                                    ''Error: 'eagle' command not found. Make sure Eagle is installed and in your PATH.''
                                | _ \<Rightarrow> ''Error executing agent call: '' @ str_exn e)))"
proof -
  define cmd where "cmd = build_command path agent provider model rules"
  define r where "r = CallAgentTool_execute env instructions agent provider model rules save_output"
  define done_text where
    "done_text = ''Agent call to '' @ agent_label agent @ '' completed successfully:'' @ nl @ nl"
  have r: "r = (case run_agent env path cmd agent save_output of
                  Inl e \<Rightarrow> Inr (''Error executing agent call: '' @ str_exn e)
                | Inr t \<Rightarrow> Inr t)"
    unfolding r_def cmd_def using assms by (rule execute_after_start)
  have timed_out: "r = Inr ''Agent call timed out after 5 minutes''"
    if "subprocess_run env cmd = Inl (TimeoutExpired m)" for m
    using that r by (simp add: run_agent_timeout)
  have plain: "r = Inr (done_text @ stdout result)"
    if "subprocess_run env cmd = Inr result" "returncode result = 0" "\<not> save_output" for result
  proof -
    from that(2,3) have "report_result env result agent save_output = Inr (done_text @ stdout result)"
      by (simp add: report_result_def done_text_def)
    with that(1) have "run_agent env path cmd agent save_output = Inr (done_text @ stdout result)"
      by (rule run_agent_returned)
    with r show ?thesis by simp
  qed
  have saved: "r = Inr (done_text @ stdout result @ nl @ nl @ ''Output saved to: '' @ name)"
    if "subprocess_run env cmd = Inr result" "returncode result = 0"
       "save_output \<and> named_temporary_file env ''.txt'' = Inr name
        \<and> write_file env name (stdout result) = Inr ()" for result name
  proof -
    from that(2,3) have "report_result env result agent save_output
            = Inr (done_text @ stdout result @ nl @ nl @ ''Output saved to: '' @ name)"
      by (simp add: report_result_def done_text_def)
    with that(1) have "run_agent env path cmd agent save_output
            = Inr (done_text @ stdout result @ nl @ nl @ ''Output saved to: '' @ name)"
      by (rule run_agent_returned)
    with r show ?thesis by simp
  qed
  have lost: "r = Inr (case e of
                         TimeoutExpired m \<Rightarrow> ''Agent call timed out after 5 minutes''
                       | FileNotFoundError m \<Rightarrow>
                           ''Error: 'eagle' command not found. Make sure Eagle is installed and in your PATH.''
                       | _ \<Rightarrow> ''Error executing agent call: '' @ str_exn e)"
    if "subprocess_run env cmd = Inr result" "returncode result = 0"
       "save_output \<and> (named_temporary_file env ''.txt'' = Inl e
          \<or> (\<exists>name. named_temporary_file env ''.txt'' = Inr name
                \<and> write_file env name (stdout result) = Inl e))" for result e
  proof -
    from that(2,3) have "report_result env result agent save_output = Inl e"
      by (auto simp: report_result_def)
    with that(1) have "(case subprocess_run env cmd of
              Inl e \<Rightarrow> Inl e
            | Inr result \<Rightarrow> report_result env result agent save_output) = Inl e"
      by simp
    then show ?thesis unfolding r by (rule run_agent_raised)
  qed
  show ?thesis
    unfolding Let_def cmd_def [symmetric] r_def [symmetric] done_text_def [symmetric]
    using timed_out plain saved lost by blast
qed

theorem call_agent_result_witness:
  "named_temporary_file finishing_env ''.caw'' = Inr ''/tmp/tmp1.caw''
   \<and> subprocess_run finishing_env (build_command ''/tmp/tmp1.caw'' (Some ''coder'') None None None)
       = Inr \<lparr>returncode = 0, stdout = ''done'', stderr = []\<rparr>
   \<and> CallAgentTool_execute finishing_env ''hi'' (Some ''coder'') None None None False
       = Inr (''Agent call to coder completed successfully:'' @ nl @ nl @ ''done'')
   \<and> CallAgentTool_execute finishing_env ''hi'' (Some ''coder'') None None None True
       = Inr (''Agent call to coder completed successfully:'' @ nl @ nl @ ''done'' @ nl @ nl
              @ ''Output saved to: /tmp/tmp1.txt'')
   \<and> named_temporary_file unsavable_env ''.txt'' = Inl (OtherException ''No space left on device'')
   \<and> CallAgentTool_execute unsavable_env ''hi'' (Some ''coder'') None None None True
       = Inr ''Error executing agent call: No space left on device''
   \<and> CallAgentTool_execute hanging_env ''hi'' (Some ''coder'') None None None True
       = Inr ''Agent call timed out after 5 minutes''"
proof -
  let ?done = "\<lparr>returncode = 0, stdout = ''done'', stderr = []\<rparr>"
  have f1: "named_temporary_file finishing_env ''.caw'' = Inr ''/tmp/tmp1.caw''"
    and f2: "write_file finishing_env ''/tmp/tmp1.caw'' ''hi'' = Inr ()"
    and f3: "subprocess_run finishing_env
               (build_command ''/tmp/tmp1.caw'' (Some ''coder'') None None None) = Inr ?done"
    and f4: "named_temporary_file finishing_env ''.txt'' = Inr ''/tmp/tmp1.txt''"
    and f5: "write_file finishing_env ''/tmp/tmp1.txt'' (stdout ?done) = Inr ()"
    by (simp_all add: finishing_env_def)
  have u1: "named_temporary_file unsavable_env ''.caw'' = Inr ''/tmp/tmp1.caw''"
    and u2: "write_file unsavable_env ''/tmp/tmp1.caw'' ''hi'' = Inr ()"
    and u3: "subprocess_run unsavable_env
               (build_command ''/tmp/tmp1.caw'' (Some ''coder'') None None None) = Inr ?done"
    and u4: "named_temporary_file unsavable_env ''.txt''
               = Inl (OtherException ''No space left on device'')"
    by (simp_all add: unsavable_env_def)
  have g1: "named_temporary_file hanging_env ''.caw'' = Inr ''/tmp/tmp1.caw''"
    and g2: "write_file hanging_env ''/tmp/tmp1.caw'' ''hi'' = Inr ()"
    and g3: "subprocess_run hanging_env
               (build_command ''/tmp/tmp1.caw'' (Some ''coder'') None None None)
               = Inl (TimeoutExpired ''timed out after 300 seconds'')"
    by (simp_all add: hanging_env_def)
  have rc: "returncode ?done = 0" by simp
  note plain = call_agent_result [OF f1 f2, of "Some ''coder''" None None None False,
      unfolded Let_def]
  note saved = call_agent_result [OF f1 f2, of "Some ''coder''" None None None True,
      unfolded Let_def]
  note lost = call_agent_result [OF u1 u2, of "Some ''coder''" None None None True,
      unfolded Let_def]
  note hung = call_agent_result [OF g1 g2, of "Some ''coder''" None None None True,
      unfolded Let_def]
  have w1: "CallAgentTool_execute finishing_env ''hi'' (Some ''coder'') None None None False
       = Inr ((''Agent call to '' @ agent_label (Some ''coder'') @ '' completed successfully:''
               @ nl @ nl) @ stdout ?done)"
    using plain f3 rc by blast
  have w2: "CallAgentTool_execute finishing_env ''hi'' (Some ''coder'') None None None True
       = Inr ((''Agent call to '' @ agent_label (Some ''coder'') @ '' completed successfully:''
               @ nl @ nl) @ stdout ?done @ nl @ nl @ ''Output saved to: '' @ ''/tmp/tmp1.txt'')"
    using saved f3 rc f4 f5 by blast
  have w3: "CallAgentTool_execute unsavable_env ''hi'' (Some ''coder'') None None None True
       = Inr (case OtherException ''No space left on device'' of
                TimeoutExpired m \<Rightarrow> ''Agent call timed out after 5 minutes''
              | FileNotFoundError m \<Rightarrow>
                  ''Error: 'eagle' command not found. Make sure Eagle is installed and in your PATH.''
              | _ \<Rightarrow> ''Error executing agent call: ''
                     @ str_exn (OtherException ''No space left on device''))"
    using lost u3 rc u4 by blast
  have w4: "CallAgentTool_execute hanging_env ''hi'' (Some ''coder'') None None None True
       = Inr ''Agent call timed out after 5 minutes''"
    using hung g3 by blast
  show ?thesis
    using f1 f3 u4 w1 w2 w3 w4 by (simp add: agent_label_def)
qed

subsection \<open>The tool registry\<close>

lemma find_snoc:
  "find P (xs @ [d]) = (case find P xs of Some r \<Rightarrow> Some r | None \<Rightarrow> if P d then Some d else None)"
  by (induction xs) auto

lemma foldl_register_lookup:
  "foldl register_tool reg ds x
     = (case defined_in ds x of Some d \<Rightarrow> Some d | None \<Rightarrow> reg x)"
proof (induction ds arbitrary: reg)
  case Nil
  then show ?case by (simp add: defined_in_def)
next
  case (Cons d ds)
  have "foldl register_tool reg (d # ds) x = foldl register_tool (register_tool reg d) ds x"
    by simp
  also have "\<dots> = (case defined_in ds x of Some r \<Rightarrow> Some r | None \<Rightarrow> register_tool reg d x)"
    by (rule Cons.IH)
  also have "\<dots> = (case defined_in (d # ds) x of Some r \<Rightarrow> Some r | None \<Rightarrow> reg x)"
    by (simp add: defined_in_def find_snoc register_tool_def split: option.splits)
  finally show ?case .
qed

lemma load_lookup:
  "load_tools_from_directory scan reg path x
     = (case defined_in (scan path) x of Some d \<Rightarrow> Some d | None \<Rightarrow> reg x)"
  by (simp add: load_tools_from_directory_def foldl_register_lookup)

lemma defined_in_name: "defined_in ds x = Some d \<Longrightarrow> tool_name d = x"
  by (auto simp: defined_in_def find_Some_iff)

lemma load_registry_ok:
  "registry_ok reg \<Longrightarrow> registry_ok (load_tools_from_directory scan reg path)"
  unfolding registry_ok_def
  by (auto simp: load_lookup dest: defined_in_name split: option.splits)

text \<open>
  C1. After directory A and then directory B are loaded, both defining a tool
  \<open>x\<close>, the registry has B's descriptor under \<open>x\<close>, and it is the only descriptor of
  that name in the registry. \<^verbatim>\<open>_initialize_tools\<close> loads the built-in directory, then
  the project's, then the user's: a name is bound to the user's definition if there is
  one, else to the project's, else to the built-in one.
\<close>

theorem later_directory_overrides:
  assumes "registry_ok reg"
      and "defined_in (scan dir_a) x = Some da"
      and "defined_in (scan dir_b) x = Some db"
  shows "(let reg' = load_tools_from_directory scan (load_tools_from_directory scan reg dir_a) dir_b
          in reg' x = Some db \<and> {d \<in> ran reg'. tool_name d = x} = {db})
         \<and> initialize_tools scan env reg y
             = (case defined_in (scan (user_tools_dir env)) y of
                  Some d \<Rightarrow> Some d
                | None \<Rightarrow>
                   (case defined_in (scan (project_tools_dir env)) y of
                      Some d \<Rightarrow> Some d
                    | None \<Rightarrow>
                       (case defined_in (scan (default_tools_dir env)) y of
                          Some d \<Rightarrow> Some d
                        | None \<Rightarrow> reg y)))"
proof -
  define reg' where
    "reg' = load_tools_from_directory scan (load_tools_from_directory scan reg dir_a) dir_b"
  have bound: "reg' x = Some db"
    using assms(3) by (simp add: reg'_def load_lookup)
  have ok: "registry_ok reg'"
    unfolding reg'_def using assms(1) by (intro load_registry_ok)
  have only: "{d \<in> ran reg'. tool_name d = x} = {db}"
  proof
    show "{d \<in> ran reg'. tool_name d = x} \<subseteq> {db}"
    proof
      fix d assume "d \<in> {d \<in> ran reg'. tool_name d = x}"
      then obtain k where k: "reg' k = Some d" and n: "tool_name d = x"
        by (auto simp: ran_def)
      from ok k have "tool_name d = k" by (simp add: registry_ok_def)
      with n k bound show "d \<in> {db}" by simp
    qed
  next
    from assms(3) have "tool_name db = x" by (rule defined_in_name)
    with bound show "{db} \<subseteq> {d \<in> ran reg'. tool_name d = x}"
      by (auto simp: ran_def)
  qed
  have order: "initialize_tools scan env reg y
             = (case defined_in (scan (user_tools_dir env)) y of
                  Some d \<Rightarrow> Some d
                | None \<Rightarrow>
                   (case defined_in (scan (project_tools_dir env)) y of
                      Some d \<Rightarrow> Some d
                    | None \<Rightarrow>
                       (case defined_in (scan (default_tools_dir env)) y of
                          Some d \<Rightarrow> Some d
                        | None \<Rightarrow> reg y)))"
    by (simp add: initialize_tools_def Let_def load_lookup split: option.splits)
  show ?thesis
    using bound only order unfolding Let_def reg'_def by blast
qed

theorem later_directory_overrides_witness:
  "registry_ok Map.empty
   \<and> defined_in (example_scan (default_tools_dir example_os)) ''web''
       = Some \<lparr>tool_name = ''web'', tool_description = ''built-in web''\<rparr>
   \<and> defined_in (example_scan (project_tools_dir example_os)) ''web''
       = Some \<lparr>tool_name = ''web'', tool_description = ''project web''\<rparr>
   \<and> load_tools_from_directory example_scan
         (load_tools_from_directory example_scan Map.empty (default_tools_dir example_os))
         (project_tools_dir example_os) ''web''
       = Some \<lparr>tool_name = ''web'', tool_description = ''project web''\<rparr>
   \<and> initialize_tools example_scan example_os Map.empty ''web''
       = Some \<lparr>tool_name = ''web'', tool_description = ''project web''\<rparr>
   \<and> initialize_tools example_scan example_os Map.empty ''shell''
       = Some \<lparr>tool_name = ''shell'', tool_description = ''built-in shell''\<rparr>"
proof -
  have h1: "registry_ok Map.empty"
    by (simp add: registry_ok_def)
  have d: "default_tools_dir example_os = ''/pkg/eagle_lang/default_config/tools''"
    and p: "project_tools_dir example_os = ''/work/.eagle/tools''"
    and u: "user_tools_dir example_os = ''/home/u/.eagle/tools''"
    by (simp_all add: default_tools_dir_def project_tools_dir_def user_tools_dir_def
        example_os_def path_join_def)
  have h2: "defined_in (example_scan (default_tools_dir example_os)) ''web''
              = Some \<lparr>tool_name = ''web'', tool_description = ''built-in web''\<rparr>"
    by (simp add: d example_scan_def defined_in_def)
  have h3: "defined_in (example_scan (project_tools_dir example_os)) ''web''
              = Some \<lparr>tool_name = ''web'', tool_description = ''project web''\<rparr>"
    by (simp add: p example_scan_def defined_in_def)
  have s: "defined_in (example_scan (default_tools_dir example_os)) ''shell''
              = Some \<lparr>tool_name = ''shell'', tool_description = ''built-in shell''\<rparr>"
          "defined_in (example_scan (project_tools_dir example_os)) ''shell'' = None"
          "defined_in (example_scan (user_tools_dir example_os)) ''shell'' = None"
          "defined_in (example_scan (user_tools_dir example_os)) ''web'' = None"
    by (simp_all add: d p u example_scan_def defined_in_def)
  show ?thesis
    using h1 h2 h3 s
      later_directory_overrides [OF h1 h2 h3, of example_os "''web''"]
      later_directory_overrides [OF h1 h2 h3, of example_os "''shell''"]
    by (simp add: Let_def)
qed

subsection \<open>The permission gate\<close>

lemma granted_consult_gate: "granted g \<subseteq> granted (snd (consult_gate g prompt_fn tool))"
  by (cases "prompt_fn tool") (auto simp: consult_gate_def request_and_record_def)

lemma require_consult_gate:
  "require_permission (snd (consult_gate g prompt_fn tool)) = require_permission g"
  by (cases "prompt_fn tool") (auto simp: consult_gate_def request_and_record_def)

lemma granted_consult_all: "granted g \<subseteq> granted (consult_all g prompt_fn tools)"
proof (induction tools arbitrary: g)
  case Nil
  then show ?case by simp
next
  case (Cons tool tools)
  have "granted g \<subseteq> granted (snd (consult_gate g prompt_fn tool))"
    by (rule granted_consult_gate)
  also have "\<dots> \<subseteq> granted (consult_all (snd (consult_gate g prompt_fn tool)) prompt_fn tools)"
    by (rule Cons.IH)
  finally show ?case by simp
qed

text \<open>
  C6. \<^verbatim>\<open>requires_confirmation\<close> is true exactly for a tool that is in the configured
  set and has not been granted in this session. In a new session it is true for every
  tool of the configured set. After an "always allow" answer for a tool it is false for
  that tool, at once and for whatever the gate is consulted for later in the session
  (with any prompt).
\<close>

theorem requires_confirmation_after_grant:
  "(requires_confirmation g tool \<longleftrightarrow> tool \<in> require_permission g \<and> tool \<notin> granted g)
   \<and> (requires_confirmation (new_gate required) tool \<longleftrightarrow> tool \<in> required)
   \<and> (prompt_fn tool = AlwaysAllow \<longrightarrow>
        \<not> requires_confirmation (snd (request_and_record g tool prompt_fn)) tool
        \<and> \<not> requires_confirmation
              (consult_all (snd (request_and_record g tool prompt_fn)) later_prompt later) tool)"
proof (intro conjI impI)
  show "requires_confirmation g tool \<longleftrightarrow> tool \<in> require_permission g \<and> tool \<notin> granted g"
    by (simp add: requires_confirmation_def)
next
  show "requires_confirmation (new_gate required) tool \<longleftrightarrow> tool \<in> required"
    by (simp add: requires_confirmation_def new_gate_def)
next
  assume a: "prompt_fn tool = AlwaysAllow"
  then have g: "tool \<in> granted (snd (request_and_record g tool prompt_fn))"
    by (simp add: request_and_record_def)
  then show "\<not> requires_confirmation (snd (request_and_record g tool prompt_fn)) tool"
    by (simp add: requires_confirmation_def)
  from g granted_consult_all
  have "tool \<in> granted (consult_all (snd (request_and_record g tool prompt_fn)) later_prompt later)"
    by blast
  then show "\<not> requires_confirmation
              (consult_all (snd (request_and_record g tool prompt_fn)) later_prompt later) tool"
    by (simp add: requires_confirmation_def)
qed

theorem requires_confirmation_after_grant_witness:
  "requires_confirmation (new_gate {''shell'', ''write''}) ''shell''
   \<and> \<not> requires_confirmation
         (snd (request_and_record (new_gate {''shell'', ''write''}) ''shell'' (\<lambda>t. AlwaysAllow)))
         ''shell''
   \<and> \<not> requires_confirmation
         (consult_all
            (snd (request_and_record (new_gate {''shell'', ''write''}) ''shell'' (\<lambda>t. AlwaysAllow)))
            (\<lambda>t. Deny) [''write'', ''shell'']) ''shell''"
proof -
  note inst = requires_confirmation_after_grant
          [of "new_gate {''shell'', ''write''}" "''shell''" "{''shell'', ''write''}"
              "\<lambda>t. AlwaysAllow" "\<lambda>t. Deny" "[''write'', ''shell'']"]
  have m: "''shell'' \<in> {''shell'', ''write''}" by simp
  have a: "(\<lambda>t::string. AlwaysAllow) ''shell'' = AlwaysAllow" by simp
  have r1: "requires_confirmation (new_gate {''shell'', ''write''}) ''shell''"
    using inst m by blast
  have r2: "\<not> requires_confirmation
         (snd (request_and_record (new_gate {''shell'', ''write''}) ''shell'' (\<lambda>t. AlwaysAllow)))
         ''shell''"
    using inst a by blast
  have r3: "\<not> requires_confirmation
         (consult_all
            (snd (request_and_record (new_gate {''shell'', ''write''}) ''shell'' (\<lambda>t. AlwaysAllow)))
            (\<lambda>t. Deny) [''write'', ''shell'']) ''shell''"
    using inst a by blast
  show ?thesis
    using r1 r2 r3 by blast
qed

subsection \<open>The interpreter loop\<close>

lemma iterations_execute_request: "iterations (execute_request cfg st req) = iterations st"
  by (auto simp: execute_request_def append_turn_def split: option.splits prod.splits decision.splits)

lemma iterations_execute_requests:
  "iterations (foldl (execute_request cfg) st reqs) = iterations st"
  by (induction reqs arbitrary: st) (simp_all add: iterations_execute_request)

lemma run_loop_limit:
  assumes "\<forall>conv. \<exists>reqs. ask_provider cfg conv = ToolRequests reqs"
  shows "\<exists>st'. run_loop cfg n st = (LoopLimitExceeded (conversation st'), st')
               \<and> iterations st' = iterations st + n"
proof (induction n arbitrary: st)
  case 0
  then show ?case by simp
next
  case (Suc n)
  from assms obtain reqs where reqs: "ask_provider cfg (conversation st) = ToolRequests reqs"
    by blast
  let ?st1 = "foldl (execute_request cfg) (st\<lparr>iterations := Suc (iterations st)\<rparr>) reqs"
  from Suc.IH [of ?st1] obtain st' where
    st': "run_loop cfg n ?st1 = (LoopLimitExceeded (conversation st'), st')"
         "iterations st' = iterations ?st1 + n"
    by blast
  have "iterations ?st1 = Suc (iterations st)"
    by (simp add: iterations_execute_requests)
  with st' reqs show ?case by simp
qed

text \<open>
  C7. When the provider answers every call with tool requests, the run ends, for every
  ceiling, with \<^verbatim>\<open>LoopLimitExceeded\<close> and the transcript, returned to the caller, and
  the provider has then been asked exactly as many times as the ceiling says.
\<close>

theorem loop_limit_exceeded:
  assumes "\<forall>conv. \<exists>reqs. ask_provider cfg conv = ToolRequests reqs"
  shows "\<exists>st'. run cfg g instructions session_history
                 = (LoopLimitExceeded (conversation st'), st')
               \<and> iterations st' = iteration_ceiling cfg"
  using run_loop_limit [OF assms, of "iteration_ceiling cfg"
      "\<lparr>conversation = session_history
                        @ [\<lparr>tag = UserTurn, turn_text = instructions, answers_call = None\<rparr>],
        gate = g, iterations = 0\<rparr>"]
  by (simp add: run_def)

theorem loop_limit_exceeded_witness:
  "(\<forall>conv. \<exists>reqs. ask_provider stubborn_config conv = ToolRequests reqs)
   \<and> iteration_ceiling stubborn_config = 3
   \<and> (\<exists>st'. run stubborn_config (new_gate {}) ''say hi'' []
               = (LoopLimitExceeded (conversation st'), st')
             \<and> iterations st' = 3)
   \<and> fst (run stubborn_config (new_gate {}) ''say hi'' [])
       = LoopLimitExceeded
           [\<lparr>tag = UserTurn, turn_text = ''say hi'', answers_call = None\<rparr>,
            \<lparr>tag = ToolResultTurn, turn_text = ''hi'', answers_call = Some ''call-1''\<rparr>,
            \<lparr>tag = ToolResultTurn, turn_text = ''hi'', answers_call = Some ''call-1''\<rparr>,
            \<lparr>tag = ToolResultTurn, turn_text = ''hi'', answers_call = Some ''call-1''\<rparr>]"
proof -
  have h: "\<forall>conv. \<exists>reqs. ask_provider stubborn_config conv = ToolRequests reqs"
    by (simp add: stubborn_config_def)
  have c: "iteration_ceiling stubborn_config = 3"
    by (simp add: stubborn_config_def)
  have r: "fst (run stubborn_config (new_gate {}) ''say hi'' [])
       = LoopLimitExceeded
           [\<lparr>tag = UserTurn, turn_text = ''say hi'', answers_call = None\<rparr>,
            \<lparr>tag = ToolResultTurn, turn_text = ''hi'', answers_call = Some ''call-1''\<rparr>,
            \<lparr>tag = ToolResultTurn, turn_text = ''hi'', answers_call = Some ''call-1''\<rparr>,
            \<lparr>tag = ToolResultTurn, turn_text = ''hi'', answers_call = Some ''call-1''\<rparr>]"
    by code_simp
  show ?thesis
    using h c r loop_limit_exceeded [OF h, of "new_gate {}" "''say hi''" "[]"] by simp
qed

end
